theory Spec2Isabelle
  imports Complex_Main
begin

section \<open>Budgeto: the pay-cycle projection engine\<close>

text \<open>
  The development embeds \<^verbatim>\<open>app/lib/bills.ts\<close> (\<^verbatim>\<open>calculateUpcomingBillsTotal\<close>,
  \<^verbatim>\<open>calculateBillsBetweenDates\<close>; the file \<^verbatim>\<open>unnamed/part_004\<close> of the sources, which
  \<^verbatim>\<open>payCalculations.ts\<close> imports as \<^verbatim>\<open>./bills\<close>) and \<^verbatim>\<open>app/lib/payCalculations.ts\<close>
  (\<^verbatim>\<open>calculateAnnualSalary\<close>, \<^verbatim>\<open>calculateTargetCycleAmount\<close>,
  \<^verbatim>\<open>calculateNextPayday\<close>, \<^verbatim>\<open>generateProjectedSchedule\<close>).

  Conventions of the embedding:
  \<^item> A JavaScript \<^verbatim>\<open>Date\<close> is its time value: an integer number of milliseconds since
    the epoch, or Invalid Date. The program reads the calendar in the ambient local zone
    only; the zone is taken to be UTC (offset zero, no daylight saving). The limit of
    the time value (about 8.64e15 ms) is not modelled.
  \<^item> The calendar functions follow the definitions of ECMA-262 (Day, TimeWithinDay,
    DayFromYear, YearFromTime, MonthFromTime, DateFromTime, WeekDay, MakeDay, MakeDate).
  \<^item> The functions of the library date-fns are written out from its implementation
    (version 3 and later: \<^verbatim>\<open>isWithinInterval\<close> orders the two ends of the interval).
  \<^item> A JavaScript number that the program tests with \<^verbatim>\<open>isNaN\<close>, or that reaches a
    date, is a value or NaN. Money amounts are exact reals and their arithmetic is
    exact, except in the round trip of the cycle conversion, where the two functions
    are also given with every product and quotient rounded to the nearest double.
  \<^item> \<^verbatim>\<open>console\<close> output is dropped, except where building the message throws
    (\<^verbatim>\<open>toISOString\<close> of an Invalid Date raises a RangeError).
  \<^item> A loop is a partial function into \<open>option\<close>: \<open>None\<close> is a run that never returns.
\<close>

subsection \<open>ECMA-262 calendar arithmetic\<close>

definition msPerDay :: int where
  "msPerDay = 86400000"

definition Day :: "int \<Rightarrow> int" where
  "Day t = t div msPerDay"

definition TimeWithinDay :: "int \<Rightarrow> int" where
  "TimeWithinDay t = t mod msPerDay"

definition DaysInYear :: "int \<Rightarrow> int" where
  "DaysInYear y =
     (if y mod 4 \<noteq> 0 then 365
      else if y mod 100 \<noteq> 0 then 366
      else if y mod 400 \<noteq> 0 then 365
      else 366)"

definition DayFromYear :: "int \<Rightarrow> int" where
  "DayFromYear y =
     365 * (y - 1970) + (y - 1969) div 4 - (y - 1901) div 100 + (y - 1601) div 400"

lemma step_div:
  fixes a n :: int
  assumes n: "0 < n"
  shows "(a + 1) div n = a div n + (if (a + 1) mod n = 0 then 1 else 0)"
proof -
  have a: "a = n * (a div n) + a mod n" by simp
  have r: "0 \<le> a mod n" "a mod n < n" using n by simp_all
  show ?thesis
  proof (cases "a mod n = n - 1")
    case True
    have e: "a + 1 = n * (a div n + 1) + 0"
      using a True by (simp add: algebra_simps)
    have "(a + 1) div n = a div n + 1" "(a + 1) mod n = 0"
      using int_div_pos_eq [OF e] int_mod_pos_eq [OF e] n by simp_all
    then show ?thesis by simp
  next
    case False
    have e: "a + 1 = n * (a div n) + (a mod n + 1)"
      using a by simp
    have b: "0 \<le> a mod n + 1" "a mod n + 1 < n" using r False by simp_all
    have "(a + 1) div n = a div n" "(a + 1) mod n = a mod n + 1"
      using int_div_pos_eq [OF e b] int_mod_pos_eq [OF e b] by simp_all
    then show ?thesis using r by simp
  qed
qed

lemma mod_shift_4: "((y::int) - 1968) mod 4 = y mod 4"
proof -
  have "(y - 1968) mod 4 = (y + (- 492) * 4) mod 4" by simp
  also have "\<dots> = y mod 4" by (rule mod_mult_self1)
  finally show ?thesis .
qed

lemma mod_shift_100: "((y::int) - 1900) mod 100 = y mod 100"
proof -
  have "(y - 1900) mod 100 = (y + (- 19) * 100) mod 100" by simp
  also have "\<dots> = y mod 100" by (rule mod_mult_self1)
  finally show ?thesis .
qed

lemma mod_shift_400: "((y::int) - 1600) mod 400 = y mod 400"
proof -
  have "(y - 1600) mod 400 = (y + (- 4) * 400) mod 400" by simp
  also have "\<dots> = y mod 400" by (rule mod_mult_self1)
  finally show ?thesis .
qed

lemma DayFromYear_Suc: "DayFromYear (y + 1) = DayFromYear y + DaysInYear y"
proof -
  have d4: "(y + 1 - 1969) div 4 = (y - 1969) div 4 + (if y mod 4 = 0 then 1 else 0)"
    using step_div [of 4 "y - 1969"] mod_shift_4 [of y] by simp
  have d100: "(y + 1 - 1901) div 100 = (y - 1901) div 100 + (if y mod 100 = 0 then 1 else 0)"
    using step_div [of 100 "y - 1901"] mod_shift_100 [of y] by simp
  have d400: "(y + 1 - 1601) div 400 = (y - 1601) div 400 + (if y mod 400 = 0 then 1 else 0)"
    using step_div [of 400 "y - 1601"] mod_shift_400 [of y] by simp
  have c1: "y mod 100 = 0 \<Longrightarrow> y mod 4 = 0"
    using mod_mod_cancel [of 4 100 y] by simp
  have c2: "y mod 400 = 0 \<Longrightarrow> y mod 100 = 0"
    using mod_mod_cancel [of 100 400 y] by simp
  show ?thesis
    unfolding DayFromYear_def DaysInYear_def d4 d100 d400
    using c1 c2 by auto
qed

lemma DaysInYear_bounds: "365 \<le> DaysInYear y \<and> DaysInYear y \<le> 366"
  by (simp add: DaysInYear_def)

text \<open>
  YearFromTime is the largest year whose first day is not after the given day. The
  search starts from a year that is not too late and walks up.
\<close>

function yearSearch :: "int \<Rightarrow> int \<Rightarrow> int" where
  "yearSearch d y = (if DayFromYear (y + 1) \<le> d then yearSearch d (y + 1) else y)"
  by pat_completeness auto
termination
proof (relation "measure (\<lambda>(d, y). nat (d - DayFromYear (y + 1) + 1))")
  show "wf (measure (\<lambda>(d, y). nat (d - DayFromYear (y + 1) + 1)))"
    by simp
next
  fix d y :: int
  assume le: "DayFromYear (y + 1) \<le> d"
  have "DayFromYear (y + 1 + 1) = DayFromYear (y + 1) + DaysInYear (y + 1)"
    by (rule DayFromYear_Suc)
  with DaysInYear_bounds [of "y + 1"] le
  show "((d, y + 1), (d, y)) \<in> measure (\<lambda>(d, y). nat (d - DayFromYear (y + 1) + 1))"
    by simp
qed

declare yearSearch.simps [simp del]

definition YearFromDay :: "int \<Rightarrow> int" where
  "YearFromDay d = yearSearch d (1970 + (if 0 \<le> d then d div 366 else d div 365))"

definition InLeapYear :: "int \<Rightarrow> int" where
  "InLeapYear d = (if DaysInYear (YearFromDay d) = 366 then 1 else 0)"

definition DayWithinYear :: "int \<Rightarrow> int" where
  "DayWithinYear d = d - DayFromYear (YearFromDay d)"

text \<open>The number of days of a year before its month \<open>m\<close> (0 is January); \<open>l\<close> is 1 in a leap year.\<close>

definition daysBeforeMonth :: "int \<Rightarrow> int \<Rightarrow> int" where
  "daysBeforeMonth l m =
     (if m = 0 then 0
      else if m = 1 then 31
      else if m = 2 then 59 + l
      else if m = 3 then 90 + l
      else if m = 4 then 120 + l
      else if m = 5 then 151 + l
      else if m = 6 then 181 + l
      else if m = 7 then 212 + l
      else if m = 8 then 243 + l
      else if m = 9 then 273 + l
      else if m = 10 then 304 + l
      else 334 + l)"

definition MonthFromDay :: "int \<Rightarrow> int" where
  "MonthFromDay d =
     (let k = DayWithinYear d; l = InLeapYear d in
      if k < 31 then 0
      else if k < 59 + l then 1
      else if k < 90 + l then 2
      else if k < 120 + l then 3
      else if k < 151 + l then 4
      else if k < 181 + l then 5
      else if k < 212 + l then 6
      else if k < 243 + l then 7
      else if k < 273 + l then 8
      else if k < 304 + l then 9
      else if k < 334 + l then 10
      else 11)"

definition DateFromDay :: "int \<Rightarrow> int" where
  "DateFromDay d = DayWithinYear d - daysBeforeMonth (InLeapYear d) (MonthFromDay d) + 1"

definition WeekDay :: "int \<Rightarrow> int" where
  "WeekDay t = (Day t + 4) mod 7"

definition MakeDay :: "int \<Rightarrow> int \<Rightarrow> int \<Rightarrow> int" where
  "MakeDay year month date =
     (let ym = year + month div 12; mn = month mod 12 in
      DayFromYear ym + daysBeforeMonth (if DaysInYear ym = 366 then 1 else 0) mn + date - 1)"

definition MakeDate :: "int \<Rightarrow> int \<Rightarrow> int" where
  "MakeDate day time = day * msPerDay + time"

subsection \<open>JavaScript numbers and dates\<close>

datatype 'a number = NaN | Num 'a

datatype Date = InvalidDate | Date int

datatype error = RangeError

text \<open>\<^verbatim>\<open>new Date(value)\<close>, \<^verbatim>\<open>date.getTime()\<close> and the comparisons of two dates.\<close>

fun newDate :: "int number \<Rightarrow> Date" where
  "newDate NaN = InvalidDate"
| "newDate (Num t) = Date t"

fun getTime :: "Date \<Rightarrow> int number" where
  "getTime InvalidDate = NaN"
| "getTime (Date t) = Num t"

fun lessNumber :: "('a::ord) number \<Rightarrow> 'a number \<Rightarrow> bool" where
  "lessNumber (Num a) (Num b) = (a < b)"
| "lessNumber _ _ = False"

fun lessEqNumber :: "('a::ord) number \<Rightarrow> 'a number \<Rightarrow> bool" where
  "lessEqNumber (Num a) (Num b) = (a \<le> b)"
| "lessEqNumber _ _ = False"

fun strictEqNumber :: "'a number \<Rightarrow> 'a number \<Rightarrow> bool" where
  "strictEqNumber (Num a) (Num b) = (a = b)"
| "strictEqNumber _ _ = False"

definition dateLess :: "Date \<Rightarrow> Date \<Rightarrow> bool" where
  "dateLess a b = lessNumber (getTime a) (getTime b)"

definition dateLessEq :: "Date \<Rightarrow> Date \<Rightarrow> bool" where
  "dateLessEq a b = lessEqNumber (getTime a) (getTime b)"

text \<open>The methods of \<^verbatim>\<open>Date\<close> that the program and date-fns call, on a valid time value.\<close>

definition getFullYear :: "int \<Rightarrow> int" where
  "getFullYear t = YearFromDay (Day t)"

definition getMonth :: "int \<Rightarrow> int" where
  "getMonth t = MonthFromDay (Day t)"

definition getDate :: "int \<Rightarrow> int" where
  "getDate t = DateFromDay (Day t)"

definition getDay :: "int \<Rightarrow> int" where
  "getDay t = WeekDay t"

definition setDateJS :: "int \<Rightarrow> int \<Rightarrow> int" where
  "setDateJS t dt = MakeDate (MakeDay (getFullYear t) (getMonth t) dt) (TimeWithinDay t)"

definition setMonthJS :: "int \<Rightarrow> int \<Rightarrow> int" where
  "setMonthJS t m = MakeDate (MakeDay (getFullYear t) m (getDate t)) (TimeWithinDay t)"

definition setMonthDateJS :: "int \<Rightarrow> int \<Rightarrow> int \<Rightarrow> int" where
  "setMonthDateJS t m dt = MakeDate (MakeDay (getFullYear t) m dt) (TimeWithinDay t)"

definition setFullYearJS :: "int \<Rightarrow> int \<Rightarrow> int \<Rightarrow> int \<Rightarrow> int" where
  "setFullYearJS t y m dt = MakeDate (MakeDay y m dt) (TimeWithinDay t)"

definition setHoursJS :: "int \<Rightarrow> int \<Rightarrow> int" where
  "setHoursJS t time = MakeDate (Day t) time"

subsection \<open>date-fns\<close>

fun startOfDay :: "Date \<Rightarrow> Date" where
  "startOfDay InvalidDate = InvalidDate"
| "startOfDay (Date t) = Date (setHoursJS t 0)"

fun endOfDay :: "Date \<Rightarrow> Date" where
  "endOfDay InvalidDate = InvalidDate"
| "endOfDay (Date t) = Date (setHoursJS t (msPerDay - 1))"

fun setDate :: "Date \<Rightarrow> int number \<Rightarrow> Date" where
  "setDate (Date t) (Num dayOfMonth) = Date (setDateJS t dayOfMonth)"
| "setDate _ _ = InvalidDate"

fun addDays :: "Date \<Rightarrow> int \<Rightarrow> Date" where
  "addDays InvalidDate amount = InvalidDate"
| "addDays (Date t) amount =
     (if amount = 0 then Date t else Date (setDateJS t (getDate t + amount)))"

definition addWeeks :: "Date \<Rightarrow> int \<Rightarrow> Date" where
  "addWeeks date amount = addDays date (amount * 7)"

fun addMonths :: "Date \<Rightarrow> int \<Rightarrow> Date" where
  "addMonths InvalidDate amount = InvalidDate"
| "addMonths (Date t) amount =
     (if amount = 0 then Date t
      else
        (let dayOfMonth = getDate t;
             endOfDesiredMonth = setMonthDateJS t (getMonth t + amount + 1) 0;
             daysInMonth = getDate endOfDesiredMonth
         in if dayOfMonth \<ge> daysInMonth then Date endOfDesiredMonth
            else Date (setFullYearJS t (getFullYear endOfDesiredMonth)
                         (getMonth endOfDesiredMonth) dayOfMonth)))"

definition isBefore :: "Date \<Rightarrow> Date \<Rightarrow> bool" where
  "isBefore date dateToCompare = dateLess date dateToCompare"

definition isAfter :: "Date \<Rightarrow> Date \<Rightarrow> bool" where
  "isAfter date dateToCompare = dateLess dateToCompare date"

definition isSameDay :: "Date \<Rightarrow> Date \<Rightarrow> bool" where
  "isSameDay dateLeft dateRight =
     strictEqNumber (getTime (startOfDay dateLeft)) (getTime (startOfDay dateRight))"

fun isWithinInterval :: "Date \<Rightarrow> Date \<Rightarrow> Date \<Rightarrow> bool" where
  "isWithinInterval (Date time) (Date start) (Date end') =
     (min start end' \<le> time \<and> time \<le> max start end')"
| "isWithinInterval _ _ _ = False"

subsection \<open>The bill occurrence expander (\<^verbatim>\<open>app/lib/bills.ts\<close>)\<close>

text \<open>
  A bill document. \<open>dueDate\<close> and \<open>isActive\<close> are optional fields; \<open>creationTime\<close> is
  the field \<^verbatim>\<open>_creationTime\<close>.
\<close>

record Bill =
  name :: string
  amount :: "real number"
  frequency :: string
  dueDate :: "int number option"
  isActive :: "bool option"
  creationTime :: "int number"

record DateRange =
  startDate :: Date
  endDate :: Date

text \<open>
  The loop over the months of a monthly bill:
  \<^verbatim>\<open>while (!isAfter(currentMonthDate, rangeEnd)) { ... }\<close>.
\<close>

partial_function (option) monthlyLoop ::
  "Date \<Rightarrow> Date \<Rightarrow> real \<Rightarrow> Date \<Rightarrow> real \<Rightarrow> real option" where
  "monthlyLoop rangeStart rangeEnd billAmount currentMonthDate totalAmount =
     (if \<not> isAfter currentMonthDate rangeEnd then
        (if isSameDay (addMonths currentMonthDate 1) currentMonthDate
         then Some (if isWithinInterval currentMonthDate rangeStart rangeEnd
                    then totalAmount + billAmount else totalAmount)
         else monthlyLoop rangeStart rangeEnd billAmount (addMonths currentMonthDate 1)
                (if isWithinInterval currentMonthDate rangeStart rangeEnd
                 then totalAmount + billAmount else totalAmount))
      else Some totalAmount)"

text \<open>
  \<^verbatim>\<open>const addIntervalFn = bill.frequency === 'weekly' ? addWeeks : (date: Date) => addWeeks(date, 2)\<close>:
  the function for a fortnightly bill takes one parameter, so the second argument of a
  call is dropped.
\<close>

definition addIntervalFn :: "string \<Rightarrow> Date \<Rightarrow> int \<Rightarrow> Date" where
  "addIntervalFn freq date n = (if freq = ''weekly'' then addWeeks date n else addWeeks date 2)"

definition maxBackwardIterations :: int where
  "maxBackwardIterations = 1000"

text \<open>
  \<^verbatim>\<open>while (currentDate > rangeStart && backwardIterations < maxBackwardIterations)\<close>;
  the result is the date reached and the number of iterations made.
\<close>

partial_function (option) backwardLoop ::
  "string \<Rightarrow> Date \<Rightarrow> Date \<Rightarrow> int \<Rightarrow> (Date \<times> int) option" where
  "backwardLoop freq rangeStart currentDate backwardIterations =
     (if dateLess rangeStart currentDate \<and> backwardIterations < maxBackwardIterations
      then backwardLoop freq rangeStart (addIntervalFn freq currentDate (- 1))
             (backwardIterations + 1)
      else Some (currentDate, backwardIterations))"

text \<open>\<^verbatim>\<open>while (currentDate <= rangeEnd) { ... }\<close>\<close>

partial_function (option) forwardLoop ::
  "string \<Rightarrow> Date \<Rightarrow> Date \<Rightarrow> real \<Rightarrow> Date \<Rightarrow> real \<Rightarrow> real option" where
  "forwardLoop freq rangeStart rangeEnd billAmount currentDate totalAmount =
     (if dateLessEq currentDate rangeEnd then
        (if isSameDay (addIntervalFn freq currentDate 1) currentDate
         then Some (if dateLessEq rangeStart currentDate
                       \<and> isWithinInterval currentDate rangeStart rangeEnd
                    then totalAmount + billAmount else totalAmount)
         else forwardLoop freq rangeStart rangeEnd billAmount (addIntervalFn freq currentDate 1)
                (if dateLessEq rangeStart currentDate
                    \<and> isWithinInterval currentDate rangeStart rangeEnd
                 then totalAmount + billAmount else totalAmount))
      else Some totalAmount)"

text \<open>
  The body of \<^verbatim>\<open>bills.forEach\<close>: the total after the bill, from the total before it.
  No call inside the \<^verbatim>\<open>try\<close> block throws, so the \<^verbatim>\<open>catch\<close> branch is not reached.
\<close>

definition processBill :: "Date \<Rightarrow> Date \<Rightarrow> Bill \<Rightarrow> real \<Rightarrow> real option" where
  "processBill rangeStart rangeEnd bill totalAmount =
     (case amount bill of
        NaN \<Rightarrow> Some totalAmount
      | Num billAmount \<Rightarrow>
          if frequency bill = ''one-off'' then
            (case dueDate bill of
               None \<Rightarrow> Some totalAmount
             | Some ts \<Rightarrow>
                 if newDate ts = InvalidDate then Some totalAmount
                 else if isWithinInterval (newDate ts) rangeStart rangeEnd
                 then Some (totalAmount + billAmount)
                 else Some totalAmount)
          else if frequency bill = ''monthly'' then
            (case dueDate bill of
               None \<Rightarrow> Some totalAmount
             | Some dayOfMonth \<Rightarrow>
                 if lessNumber dayOfMonth (Num 1) \<or> lessNumber (Num 31) dayOfMonth
                 then Some totalAmount
                 else monthlyLoop rangeStart rangeEnd billAmount
                        (if isBefore (setDate rangeStart dayOfMonth) rangeStart
                         then addMonths (setDate rangeStart dayOfMonth) 1
                         else setDate rangeStart dayOfMonth)
                        totalAmount)
          else if frequency bill = ''weekly'' \<or> frequency bill = ''fortnightly'' then
            (if newDate (creationTime bill) = InvalidDate then Some totalAmount
             else
               (case backwardLoop (frequency bill) rangeStart (newDate (creationTime bill)) 0 of
                  None \<Rightarrow> None
                | Some (currentDate, backwardIterations) \<Rightarrow>
                    forwardLoop (frequency bill) rangeStart rangeEnd billAmount
                      currentDate totalAmount))
          else Some totalAmount)"

fun forEachBill :: "Date \<Rightarrow> Date \<Rightarrow> Bill list \<Rightarrow> real \<Rightarrow> real option" where
  "forEachBill rangeStart rangeEnd [] totalAmount = Some totalAmount"
| "forEachBill rangeStart rangeEnd (bill # bills) totalAmount =
     (case processBill rangeStart rangeEnd bill totalAmount of
        None \<Rightarrow> None
      | Some totalAmount' \<Rightarrow> forEachBill rangeStart rangeEnd bills totalAmount')"

text \<open>
  The result is \<open>None\<close> when the call never returns, \<open>Some (Inl RangeError)\<close> when it
  throws (the first \<^verbatim>\<open>console.log\<close> formats both ends of the range with
  \<^verbatim>\<open>toISOString\<close>) and \<open>Some (Inr total)\<close> when it returns \<open>total\<close>.
\<close>

definition calculateUpcomingBillsTotal :: "Bill list \<Rightarrow> DateRange \<Rightarrow> (error + real) option" where
  "calculateUpcomingBillsTotal bills dateRange =
     (let rangeStart = startOfDay (startDate dateRange);
          rangeEnd = endOfDay (endDate dateRange)
      in if rangeStart = InvalidDate \<or> rangeEnd = InvalidDate then Some (Inl RangeError)
         else map_option Inr (forEachBill rangeStart rangeEnd bills 0))"

definition calculateBillsBetweenDates :: "Bill list \<Rightarrow> Date \<Rightarrow> Date \<Rightarrow> (error + real) option" where
  "calculateBillsBetweenDates bills startDate' endDate' =
     (if startDate' = InvalidDate \<or> endDate' = InvalidDate then Some (Inl RangeError)
      else calculateUpcomingBillsTotal bills \<lparr>startDate = startDate', endDate = endDate'\<rparr>)"

text \<open>
  A monthly bill with a valid amount whose \<^verbatim>\<open>dueDate\<close> is NaN: it passes the test
  \<^verbatim>\<open>typeof bill.dueDate !== 'number' || bill.dueDate < 1 || bill.dueDate > 31\<close>.
\<close>

definition monthlyWithNaNDay :: "Bill \<Rightarrow> bool" where
  "monthlyWithNaNDay bill \<longleftrightarrow>
     amount bill \<noteq> NaN \<and> frequency bill = ''monthly'' \<and> dueDate bill = Some NaN"

subsection \<open>Cycle conversion (\<^verbatim>\<open>app/lib/payCalculations.ts\<close>)\<close>

text \<open>
  An argument of type \<^verbatim>\<open>string | null | undefined\<close> is a \<open>string option\<close>
  (\<open>None\<close> for both \<^verbatim>\<open>null\<close> and \<^verbatim>\<open>undefined\<close>); as a condition it is false for
  \<open>None\<close> and for the empty string.
\<close>

definition truthy :: "string option \<Rightarrow> bool" where
  "truthy s = (s \<noteq> None \<and> s \<noteq> Some [])"

definition calculateAnnualSalary :: "real option \<Rightarrow> string option \<Rightarrow> real option" where
  "calculateAnnualSalary amount' frequency' =
     (case amount' of
        None \<Rightarrow> None
      | Some a \<Rightarrow>
          if a \<le> 0 \<or> \<not> truthy frequency' then None
          else if frequency' = Some ''monthly'' then Some (a * 12)
          else if frequency' = Some ''fortnightly'' then Some (a * 26)
          else if frequency' = Some ''weekly'' then Some (a * 52)
          else None)"

definition calculateTargetCycleAmount :: "real option \<Rightarrow> string option \<Rightarrow> real option" where
  "calculateTargetCycleAmount annualSalary targetFrequency =
     (case annualSalary of
        None \<Rightarrow> None
      | Some a \<Rightarrow>
          if a \<le> 0 \<or> \<not> truthy targetFrequency then None
          else if targetFrequency = Some ''monthly'' then Some (a / 12)
          else if targetFrequency = Some ''fortnightly'' then Some (a / 26)
          else if targetFrequency = Some ''weekly'' then Some (a / 52)
          else None)"

text \<open>The multiplier of a recognised frequency, for the statements below.\<close>

definition cycleMultiplier :: "string \<Rightarrow> real" where
  "cycleMultiplier f =
     (if f = ''monthly'' then 12 else if f = ''fortnightly'' then 26 else 52)"

subsection \<open>Cycle conversion in double precision\<close>

text \<open>
  A JavaScript number is an IEEE 754 binary64 value, and \<^verbatim>\<open>*\<close> and \<^verbatim>\<open>/\<close> give the
  double nearest to the exact result, a tie going to the even significand.
  \<open>roundDouble\<close> is that rounding for the normal range of doubles: the magnitude is
  scaled by a power of two \<open>ulp\<close> until the quotient lies from \<open>2^52\<close> up to \<open>2^53\<close>,
  and the quotient is rounded to an integer. Subnormal results and overflow to
  \<^verbatim>\<open>Infinity\<close> are not modelled.
\<close>

definition roundHalfEven :: "real \<Rightarrow> int" where
  "roundHalfEven m =
     (let f = \<lfloor>m\<rfloor> in
      if m - of_int f < 1 / 2 then f
      else if 1 / 2 < m - of_int f then f + 1
      else if even f then f else f + 1)"

lemma floor_half_less:
  fixes z :: real
  assumes "1 \<le> z"
  shows "nat \<lfloor>z / 2\<rfloor> < nat \<lfloor>z\<rfloor>"
proof -
  have f: "1 \<le> \<lfloor>z\<rfloor>" using assms by (simp add: le_floor_iff)
  have "\<lfloor>z / real_of_int 2\<rfloor> = \<lfloor>z\<rfloor> div 2" by (rule floor_divide_real_eq_div) simp
  then have "\<lfloor>z / 2\<rfloor> = \<lfloor>z\<rfloor> div 2" by simp
  with f show ?thesis by linarith
qed

function roundLoop :: "real \<Rightarrow> real \<Rightarrow> real" where
  "roundLoop x ulp =
     (if x \<le> 0 \<or> ulp \<le> 0 then 0
      else if 2 ^ 53 \<le> x / ulp then roundLoop x (ulp * 2)
      else if x / ulp < 2 ^ 52 then roundLoop x (ulp / 2)
      else of_int (roundHalfEven (x / ulp)) * ulp)"
  by pat_completeness auto
termination
proof (relation "measures [\<lambda>(x, ulp). nat \<lfloor>x / ulp / 2 ^ 53\<rfloor>, \<lambda>(x, ulp). nat \<lfloor>2 ^ 52 * ulp / x\<rfloor>]")
  show "wf (measures [\<lambda>(x, ulp). nat \<lfloor>x / ulp / 2 ^ 53\<rfloor>, \<lambda>(x, ulp). nat \<lfloor>2 ^ 52 * ulp / x\<rfloor>])"
    by simp
next
  fix x ulp :: real
  assume pos: "\<not> (x \<le> 0 \<or> ulp \<le> 0)" and big: "2 ^ 53 \<le> x / ulp"
  have "1 \<le> x / ulp / 2 ^ 53" using big by simp
  from floor_half_less [OF this]
  have "nat \<lfloor>x / (ulp * 2) / 2 ^ 53\<rfloor> < nat \<lfloor>x / ulp / 2 ^ 53\<rfloor>"
    by (simp add: field_simps)
  then show "((x, ulp * 2), (x, ulp))
      \<in> measures [\<lambda>(x, ulp). nat \<lfloor>x / ulp / 2 ^ 53\<rfloor>, \<lambda>(x, ulp). nat \<lfloor>2 ^ 52 * ulp / x\<rfloor>]"
    by simp
next
  fix x ulp :: real
  assume pos: "\<not> (x \<le> 0 \<or> ulp \<le> 0)" and "\<not> 2 ^ 53 \<le> x / ulp"
    and small: "x / ulp < 2 ^ 52"
  have x: "0 < x" and u: "0 < ulp" using pos by simp_all
  have q: "0 < x / ulp" using x u by simp
  have "0 \<le> x / (ulp / 2) / 2 ^ 53" "x / (ulp / 2) / 2 ^ 53 < 1"
    using q small by (simp_all add: field_simps)
  then have a: "\<lfloor>x / (ulp / 2) / 2 ^ 53\<rfloor> = 0" by (simp add: floor_eq_iff)
  have "0 \<le> x / ulp / 2 ^ 53" "x / ulp / 2 ^ 53 < 1"
    using q small by (simp_all add: field_simps)
  then have b: "\<lfloor>x / ulp / 2 ^ 53\<rfloor> = 0" by (simp add: floor_eq_iff)
  have "1 \<le> 2 ^ 52 * ulp / x" using small x u by (simp add: field_simps)
  from floor_half_less [OF this]
  have c: "nat \<lfloor>2 ^ 52 * (ulp / 2) / x\<rfloor> < nat \<lfloor>2 ^ 52 * ulp / x\<rfloor>"
    by (simp add: field_simps)
  show "((x, ulp / 2), (x, ulp))
      \<in> measures [\<lambda>(x, ulp). nat \<lfloor>x / ulp / 2 ^ 53\<rfloor>, \<lambda>(x, ulp). nat \<lfloor>2 ^ 52 * ulp / x\<rfloor>]"
    using a b c by simp
qed

declare roundLoop.simps [simp del]

definition roundDouble :: "real \<Rightarrow> real" where
  "roundDouble x = (if x < 0 then - roundLoop (- x) 1 else roundLoop x 1)"

text \<open>
  The two functions with the arithmetic of the program. The guards and the switch are
  those of \<open>calculateAnnualSalary\<close> and \<open>calculateTargetCycleAmount\<close> above; the
  multipliers 12, 26 and 52 are doubles.
\<close>

definition calculateAnnualSalaryDouble :: "real option \<Rightarrow> string option \<Rightarrow> real option" where
  "calculateAnnualSalaryDouble amount' frequency' =
     (case amount' of
        None \<Rightarrow> None
      | Some a \<Rightarrow>
          if a \<le> 0 \<or> \<not> truthy frequency' then None
          else if frequency' = Some ''monthly'' then Some (roundDouble (a * 12))
          else if frequency' = Some ''fortnightly'' then Some (roundDouble (a * 26))
          else if frequency' = Some ''weekly'' then Some (roundDouble (a * 52))
          else None)"

definition calculateTargetCycleAmountDouble :: "real option \<Rightarrow> string option \<Rightarrow> real option" where
  "calculateTargetCycleAmountDouble annualSalary targetFrequency =
     (case annualSalary of
        None \<Rightarrow> None
      | Some a \<Rightarrow>
          if a \<le> 0 \<or> \<not> truthy targetFrequency then None
          else if targetFrequency = Some ''monthly'' then Some (roundDouble (a / 12))
          else if targetFrequency = Some ''fortnightly'' then Some (roundDouble (a / 26))
          else if targetFrequency = Some ''weekly'' then Some (roundDouble (a / 52))
          else None)"

subsection \<open>Paydays and the projected schedule (\<^verbatim>\<open>app/lib/payCalculations.ts\<close>)\<close>

text \<open>\<^verbatim>\<open>String.prototype.toLowerCase\<close>, on strings of ASCII characters.\<close>

definition toLowerCase :: "string \<Rightarrow> string" where
  "toLowerCase s =
     map (\<lambda>c. if 65 \<le> (of_char c :: nat) \<and> (of_char c :: nat) \<le> 90
               then char_of ((of_char c :: nat) + 32) else c) s"

text \<open>
  The value of \<^verbatim>\<open>dayOfWeekMap[key]\<close>. The map is an object literal, so a key that it
  does not define itself is looked up in \<^verbatim>\<open>Object.prototype\<close>; of the property names
  found there, \<^verbatim>\<open>constructor\<close> and \<^verbatim>\<open>__proto__\<close> are the ones without an upper-case
  letter, and their values are not numbers. Every other key gives \<^verbatim>\<open>undefined\<close>.
\<close>

datatype property = Undefined | NumberValue int | ObjectValue

definition dayOfWeekMap :: "string \<Rightarrow> property" where
  "dayOfWeekMap key =
     (if key = ''sunday'' then NumberValue 0
      else if key = ''monday'' then NumberValue 1
      else if key = ''tuesday'' then NumberValue 2
      else if key = ''wednesday'' then NumberValue 3
      else if key = ''thursday'' then NumberValue 4
      else if key = ''friday'' then NumberValue 5
      else if key = ''saturday'' then NumberValue 6
      else if key = ''constructor'' \<or> key = ''__proto__'' then ObjectValue
      else Undefined)"

text \<open>
  \<^verbatim>\<open>(targetDayNum - currentDayNum + 7) % 7\<close>, then 7 in place of 0: the number of days
  from today to the next target weekday, never zero.
\<close>

definition initialDaysToAdd :: "int \<Rightarrow> int \<Rightarrow> int" where
  "initialDaysToAdd targetDayNum currentDayNum =
     (let daysUntilNextTargetDay = (targetDayNum - currentDayNum + 7) mod 7
      in if daysUntilNextTargetDay = 0 then 7 else daysUntilNextTargetDay)"

text \<open>\<^verbatim>\<open>new Date(year, monthIndex, day)\<close>: midnight of that day; a year from 0 to 99 means 1900 + year.\<close>

definition newDateYMD :: "int \<Rightarrow> int \<Rightarrow> int \<Rightarrow> int" where
  "newDateYMD y m d =
     MakeDate (MakeDay (if 0 \<le> y \<and> y \<le> 99 then 1900 + y else y) m d) 0"

text \<open>
  \<^verbatim>\<open>calculateNextPayday\<close>, with the clock reading \<^verbatim>\<open>new Date()\<close> as the parameter
  \<open>now\<close>. The result is \<open>None\<close> for \<^verbatim>\<open>null\<close>. \<open>dayOfMonth\<close> is \<open>None\<close> for \<^verbatim>\<open>null\<close>
  and \<^verbatim>\<open>undefined\<close>.
\<close>

definition calculateNextPayday ::
  "int \<Rightarrow> string option \<Rightarrow> int option \<Rightarrow> string option \<Rightarrow> Date option" where
  "calculateNextPayday now frequency' dayOfMonth dayOfWeek =
     (if \<not> truthy frequency' then None
      else
        (let today = setHoursJS now 0 in
         if frequency' = Some ''monthly'' then
           (case dayOfMonth of
              None \<Rightarrow> None
            | Some payDay \<Rightarrow>
                if payDay = 0 \<or> \<not> (1 \<le> payDay \<and> payDay \<le> 31) then None
                else
                  (let nextPayday = setDateJS today payDay;
                       nextPayday' =
                         (if nextPayday < today
                          then setDateJS (setMonthJS nextPayday (getMonth nextPayday + 1)) payDay
                          else nextPayday);
                       originalMonth = getMonth nextPayday'
                   in if getMonth nextPayday' \<noteq> originalMonth
                      then Some (Date (newDateYMD (getFullYear today) (originalMonth + 1) 0))
                      else Some (Date nextPayday')))
         else if frequency' = Some ''fortnightly'' then
           (case (if truthy dayOfWeek then dayOfWeekMap (toLowerCase (the dayOfWeek))
                  else Undefined) of
              Undefined \<Rightarrow> None
            | ObjectValue \<Rightarrow> Some InvalidDate
            | NumberValue targetDayNum \<Rightarrow>
                (let firstTargetDate =
                       setDateJS today (getDate today + initialDaysToAdd targetDayNum (getDay today))
                 in Some (Date (setDateJS firstTargetDate (getDate firstTargetDate + 14)))))
         else if frequency' = Some ''weekly'' then
           (case (if truthy dayOfWeek then dayOfWeekMap (toLowerCase (the dayOfWeek))
                  else Undefined) of
              Undefined \<Rightarrow> None
            | ObjectValue \<Rightarrow> Some InvalidDate
            | NumberValue targetDayNum \<Rightarrow>
                Some (Date (setDateJS today
                              (getDate today + initialDaysToAdd targetDayNum (getDay today)))))
         else None))"

record Settings =
  desiredPayFrequency :: "string option"
  desiredPayDayOfWeek :: "string option"
  desiredPayAmount :: "real option"

record ProjectedScheduleItem =
  allowanceDate :: Date
  allowanceAmount :: real
  billsDueInPeriod :: real
  leftoverForPeriod :: "real option"

text \<open>
  The loop \<^verbatim>\<open>for (let i = 0; i < count; i++)\<close>, by the number of iterations left. A
  throw of \<^verbatim>\<open>calculateBillsBetweenDates\<close> is not caught and ends the call.
\<close>

fun scheduleLoop ::
  "Bill list \<Rightarrow> real \<Rightarrow> int \<Rightarrow> nat \<Rightarrow> Date \<Rightarrow> ProjectedScheduleItem list
     \<Rightarrow> (error + ProjectedScheduleItem list) option" where
  "scheduleLoop bills payAmount intervalDays 0 currentAllowanceDate schedule =
     Some (Inr schedule)"
| "scheduleLoop bills payAmount intervalDays (Suc n) currentAllowanceDate schedule =
     (case calculateBillsBetweenDates bills currentAllowanceDate
             (addDays currentAllowanceDate intervalDays) of
        None \<Rightarrow> None
      | Some (Inl e) \<Rightarrow> Some (Inl e)
      | Some (Inr billsDue) \<Rightarrow>
          scheduleLoop bills payAmount intervalDays n
            (addDays currentAllowanceDate intervalDays)
            (schedule @
               [\<lparr>allowanceDate = currentAllowanceDate,
                 allowanceAmount = payAmount,
                 billsDueInPeriod = billsDue,
                 leftoverForPeriod = Some (payAmount - billsDue)\<rparr>]))"

text \<open>
  \<^verbatim>\<open>generateProjectedSchedule\<close>, with the clock reading as the parameter \<open>now\<close>. When the
  day of the week is looked up to a value that is not a number, the arithmetic on it
  gives NaN and \<^verbatim>\<open>setDate\<close> makes the first allowance date an Invalid Date.
\<close>

definition generateProjectedSchedule ::
  "int \<Rightarrow> Settings \<Rightarrow> Bill list \<Rightarrow> int \<Rightarrow> (error + ProjectedScheduleItem list) option" where
  "generateProjectedSchedule now settings bills count' =
     (if \<not> truthy (desiredPayFrequency settings) \<or> \<not> truthy (desiredPayDayOfWeek settings)
         \<or> desiredPayAmount settings = None
      then Some (Inr [])
      else
        (case dayOfWeekMap (toLowerCase (the (desiredPayDayOfWeek settings))) of
           Undefined \<Rightarrow> Some (Inr [])
         | targetDayNum \<Rightarrow>
             (let today = setHoursJS now 0;
                  currentAllowanceDate =
                    (case targetDayNum of
                       NumberValue n \<Rightarrow>
                         Date (setDateJS today (getDate today + initialDaysToAdd n (getDay today)))
                     | _ \<Rightarrow> InvalidDate);
                  freq = toLowerCase (the (desiredPayFrequency settings))
              in if freq = ''weekly''
                 then scheduleLoop bills (the (desiredPayAmount settings)) 7 (nat count')
                        currentAllowanceDate []
                 else if freq = ''fortnightly''
                 then scheduleLoop bills (the (desiredPayAmount settings)) 14 (nat count')
                        currentAllowanceDate []
                 else Some (Inr []))))"

declare monthlyLoop.simps [code]
declare backwardLoop.simps [code]
declare forwardLoop.simps [code]

section \<open>Facts about the calendar and the loops\<close>

lemma MonthFromDay_range: "0 \<le> MonthFromDay d \<and> MonthFromDay d \<le> 11"
  by (simp add: MonthFromDay_def Let_def)

lemma MakeDay_of_Day:
  "MakeDay (YearFromDay d) (MonthFromDay d) (DateFromDay d + n) = d + n"
proof -
  have m: "MonthFromDay d div 12 = 0" "MonthFromDay d mod 12 = MonthFromDay d"
    using MonthFromDay_range [of d] by simp_all
  show ?thesis
    by (simp add: MakeDay_def m DateFromDay_def DayWithinYear_def InLeapYear_def)
qed

text \<open>Setting the day of the month to the current one plus \<open>n\<close> moves the date by \<open>n\<close> days.\<close>

lemma setDateJS_getDate: "setDateJS t (getDate t + n) = t + n * msPerDay"
proof -
  have "setDateJS t (getDate t + n) = (Day t + n) * msPerDay + TimeWithinDay t"
    by (simp add: setDateJS_def getDate_def getFullYear_def getMonth_def MakeDay_of_Day
        MakeDate_def)
  also have "\<dots> = t + n * msPerDay"
    by (simp add: Day_def TimeWithinDay_def algebra_simps)
  finally show ?thesis .
qed

lemma addDays_Date: "addDays (Date t) n = Date (t + n * msPerDay)"
  by (simp add: setDateJS_getDate)

lemma addWeeks_Date: "addWeeks (Date t) n = Date (t + n * 7 * msPerDay)"
  by (simp add: addWeeks_def setDateJS_getDate)

text \<open>
  The backward walk of a bill that is not weekly: every step adds a fortnight, so from an
  anchor after the start of the range the walk stops only at the iteration limit.
\<close>

lemma backwardLoop_not_weekly:
  assumes "freq \<noteq> ''weekly''" "rs < t" "i \<le> maxBackwardIterations"
  shows "backwardLoop freq (Date rs) (Date t) i
           = Some (Date (t + (maxBackwardIterations - i) * (14 * msPerDay)),
                   maxBackwardIterations)"
  using assms
proof (induction "nat (maxBackwardIterations - i)" arbitrary: t i)
  case 0
  then have "i = maxBackwardIterations" by simp
  then show ?case
    by (subst backwardLoop.simps) simp
next
  case (Suc k)
  then have lt: "i < maxBackwardIterations" by linarith
  have step: "addIntervalFn freq (Date t) (- 1) = Date (t + 14 * msPerDay)"
    using Suc.prems(1) by (simp add: addIntervalFn_def addWeeks_Date)
  have pos: "0 < msPerDay" by (simp add: msPerDay_def)
  have "backwardLoop freq (Date rs) (Date (t + 14 * msPerDay)) (i + 1)
          = Some (Date (t + 14 * msPerDay
                        + (maxBackwardIterations - (i + 1)) * (14 * msPerDay)),
                  maxBackwardIterations)"
  proof (rule Suc.hyps(1))
    show "k = nat (maxBackwardIterations - (i + 1))" using Suc.hyps(2) by linarith
    show "freq \<noteq> ''weekly''" by (rule Suc.prems(1))
    show "rs < t + 14 * msPerDay" using Suc.prems(2) pos by linarith
    show "i + 1 \<le> maxBackwardIterations" using lt by simp
  qed
  then show ?case
    using lt Suc.prems(2) step
    by (subst backwardLoop.simps) (simp add: dateLess_def algebra_simps)
qed

lemma processBill_fortnightly_late:
  assumes f: "frequency bill = ''fortnightly''"
    and c: "creationTime bill = Num anchor"
    and s: "rs < anchor"
    and e: "re < anchor + 2000 * (7 * msPerDay)"
  shows "processBill (Date rs) (Date re) bill totalAmount = Some totalAmount"
proof (cases "amount bill")
  case NaN
  then show ?thesis by (simp add: processBill_def)
next
  case (Num billAmount)
  have b: "backwardLoop ''fortnightly'' (Date rs) (Date anchor) 0
             = Some (Date (anchor + 2000 * (7 * msPerDay)), maxBackwardIterations)"
    using backwardLoop_not_weekly [of "''fortnightly''" rs anchor 0] s
    by (simp add: maxBackwardIterations_def)
  have fw: "forwardLoop ''fortnightly'' (Date rs) (Date re) billAmount
              (Date (anchor + 2000 * (7 * msPerDay))) totalAmount = Some totalAmount"
    using e by (subst forwardLoop.simps) (simp add: dateLessEq_def)
  show ?thesis
    using Num f c b fw by (simp add: processBill_def)
qed

lemma forEachBill_skip:
  assumes "\<And>t. processBill rs re bill t = Some t"
  shows "forEachBill rs re (xs @ bill # ys) totalAmount = forEachBill rs re (xs @ ys) totalAmount"
proof (induction xs arbitrary: totalAmount)
  case Nil
  show ?case by (simp add: assms)
next
  case (Cons x xs)
  show ?case by (simp add: Cons.IH split: option.splits)
qed

text \<open>A monthly walk that starts from an Invalid Date never leaves it and never stops.\<close>

lemma monthlyLoop_Invalid:
  "monthlyLoop rangeStart rangeEnd billAmount InvalidDate totalAmount = None"
proof -
  have "currentMonthDate \<noteq> InvalidDate"
    if "monthlyLoop rangeStart rangeEnd billAmount currentMonthDate totalAmount = Some y"
    for currentMonthDate y
    using that
  proof (induction rule: monthlyLoop.raw_induct [rotated 1, consumes 1])
    case (1 monthlyLoop' rangeStart rangeEnd billAmount currentMonthDate totalAmount y)
    show ?case
    proof
      assume inv: "currentMonthDate = InvalidDate"
      with 1(2)
      have "monthlyLoop' rangeStart rangeEnd billAmount InvalidDate totalAmount = Some y"
        by (simp add: isAfter_def dateLess_def isSameDay_def)
      from 1(1) [OF this] show False by simp
    qed
  qed
  then show ?thesis
    by (cases "monthlyLoop rangeStart rangeEnd billAmount InvalidDate totalAmount") auto
qed

subsection \<open>The calendar: a month step moves forward\<close>

lemma yearSearch_upper: "d < DayFromYear (yearSearch d y + 1)"
proof (induction d y rule: yearSearch.induct)
  case (1 d y)
  show ?case
  proof (cases "DayFromYear (y + 1) \<le> d")
    case True
    with 1 show ?thesis by (subst yearSearch.simps) simp
  next
    case False
    then show ?thesis by (subst yearSearch.simps) simp
  qed
qed

lemma DayWithinYear_upper: "DayWithinYear d < DaysInYear (YearFromDay d)"
  using yearSearch_upper [of d "1970 + (if 0 \<le> d then d div 366 else d div 365)"]
    DayFromYear_Suc [of "YearFromDay d"]
  by (simp add: DayWithinYear_def YearFromDay_def)

lemma DaysInYear_cases: "DaysInYear y = 365 \<or> DaysInYear y = 366"
  by (simp add: DaysInYear_def)

lemma DateFromDay_le_31: "DateFromDay d \<le> 31"
  using DayWithinYear_upper [of d] DaysInYear_cases [of "YearFromDay d"]
  by (auto simp: DateFromDay_def MonthFromDay_def daysBeforeMonth_def InLeapYear_def Let_def)

lemma MakeDay_date: "MakeDay y m dt = MakeDay y m 0 + dt"
  by (simp add: MakeDay_def Let_def)

lemma month_cases:
  assumes "0 \<le> (m::int)" "m \<le> 11"
  shows "m = 0 \<or> m = 1 \<or> m = 2 \<or> m = 3 \<or> m = 4 \<or> m = 5 \<or> m = 6 \<or> m = 7 \<or> m = 8
         \<or> m = 9 \<or> m = 10 \<or> m = 11"
  using assms by arith

lemma two_months_gap:
  assumes "0 \<le> m" "m \<le> 11"
  shows "MakeDay y m 0 + 59 \<le> MakeDay y (m + 2) 0"
proof -
  have y1: "DayFromYear (y + 1) = DayFromYear y + DaysInYear y" by (rule DayFromYear_Suc)
  from month_cases [OF assms] DaysInYear_cases [of y] y1 show ?thesis
    by (elim disjE) (simp_all add: MakeDay_def daysBeforeMonth_def)
qed

lemma DayFromYear_1970: "DayFromYear 1970 = 0"
  by (simp add: DayFromYear_def)

lemma DayFromYear_after: "0 \<le> k \<Longrightarrow> DayFromYear (1970 + k) \<le> 366 * k"
proof (induction k rule: int_ge_induct)
  case base
  show ?case by (simp add: DayFromYear_1970)
next
  case (step i)
  have "DayFromYear (1970 + i + 1) = DayFromYear (1970 + i) + DaysInYear (1970 + i)"
    by (rule DayFromYear_Suc)
  with step DaysInYear_bounds [of "1970 + i"] show ?case by (simp add: algebra_simps)
qed

lemma DayFromYear_before: "k \<le> 0 \<Longrightarrow> DayFromYear (1970 + k) \<le> 365 * k"
proof (induction k rule: int_le_induct)
  case base
  show ?case by (simp add: DayFromYear_1970)
next
  case (step i)
  have "DayFromYear (1970 + (i - 1) + 1) = DayFromYear (1970 + (i - 1)) + DaysInYear (1970 + (i - 1))"
    by (rule DayFromYear_Suc)
  with step DaysInYear_bounds [of "1970 + (i - 1)"] show ?case by (simp add: algebra_simps)
qed

lemma yearSearch_lower: "DayFromYear y \<le> d \<Longrightarrow> DayFromYear (yearSearch d y) \<le> d"
proof (induction d y rule: yearSearch.induct)
  case (1 d y)
  show ?case
  proof (cases "DayFromYear (y + 1) \<le> d")
    case True
    with 1 show ?thesis by (subst yearSearch.simps) simp
  next
    case False
    with 1 show ?thesis by (subst yearSearch.simps) simp
  qed
qed

text \<open>\<open>YearFromDay\<close> is YearFromTime of ECMA-262: the year whose days include the given day.\<close>

lemma YearFromDay_spec:
  "DayFromYear (YearFromDay d) \<le> d \<and> d < DayFromYear (YearFromDay d + 1)"
proof -
  define y0 where "y0 = 1970 + (if 0 \<le> d then d div 366 else d div 365)"
  have "DayFromYear y0 \<le> d"
  proof (cases "0 \<le> d")
    case True
    have q: "366 * (d div 366) + d mod 366 = d" "0 \<le> d mod 366" by simp_all
    have "0 \<le> d div 366" using True by simp
    from DayFromYear_after [OF this] q True show ?thesis
      unfolding y0_def by simp
  next
    case False
    have q: "365 * (d div 365) + d mod 365 = d" "0 \<le> d mod 365" by simp_all
    have "d div 365 \<le> 0" using False zdiv_mono1 [of d 0 365] by simp
    from DayFromYear_before [OF this] q False show ?thesis
      unfolding y0_def by simp
  qed
  from yearSearch_lower [OF this] yearSearch_upper [of d y0] show ?thesis
    by (simp add: YearFromDay_def y0_def)
qed

lemma DayWithinYear_range: "0 \<le> DayWithinYear d \<and> DayWithinYear d < DaysInYear (YearFromDay d)"
  using YearFromDay_spec [of d] DayWithinYear_upper [of d] by (simp add: DayWithinYear_def)

lemma DateFromDay_range: "1 \<le> DateFromDay d \<and> DateFromDay d \<le> 31"
  using DayWithinYear_range [of d] DateFromDay_le_31 [of d]
  by (auto simp: DateFromDay_def MonthFromDay_def daysBeforeMonth_def InLeapYear_def Let_def)

lemma msPerDay_pos: "0 < msPerDay"
  by (simp add: msPerDay_def)

lemma TimeWithinDay_range: "0 \<le> TimeWithinDay t \<and> TimeWithinDay t < msPerDay"
  using msPerDay_pos by (simp add: TimeWithinDay_def)

lemma Day_MakeDate:
  assumes "0 \<le> tm" "tm < msPerDay"
  shows "Day (MakeDate x tm) = x"
proof -
  have "MakeDate x tm = msPerDay * x + tm" by (simp add: MakeDate_def)
  from int_div_pos_eq [OF this assms] show ?thesis by (simp add: Day_def)
qed

lemma MakeDate_Day: "MakeDate (Day t) (TimeWithinDay t) = t"
  by (simp add: MakeDate_def Day_def TimeWithinDay_def)

lemma MakeDate_less:
  assumes "x < y"
  shows "MakeDate x tm < MakeDate y tm"
  using assms msPerDay_pos by (simp add: MakeDate_def)

lemma addMonths_advances: "\<exists>t'. addMonths (Date t) 1 = Date t' \<and> t < t'"
proof -
  define d where "d = Day t"
  define tw where "tw = TimeWithinDay t"
  define de where "de = MakeDay (YearFromDay d) (MonthFromDay d + 2) 0"
  have tw: "0 \<le> tw" "tw < msPerDay" using TimeWithinDay_range [of t] by (simp_all add: tw_def)
  have t: "t = MakeDate d tw" by (simp add: d_def tw_def MakeDate_Day)
  have d: "d = MakeDay (YearFromDay d) (MonthFromDay d) 0 + DateFromDay d"
    using MakeDay_of_Day [of d 0] MakeDay_date [of "YearFromDay d" "MonthFromDay d" "DateFromDay d"]
    by simp
  have gap: "MakeDay (YearFromDay d) (MonthFromDay d) 0 + 59 \<le> de"
    unfolding de_def using MonthFromDay_range [of d] by (intro two_months_gap) simp_all
  have eodm: "setMonthDateJS t (getMonth t + 1 + 1) 0 = MakeDate de tw"
    by (simp add: setMonthDateJS_def getMonth_def getFullYear_def de_def d_def tw_def
        add.commute)
  have day_e: "Day (MakeDate de tw) = de" using tw by (rule Day_MakeDate)
  have lt1: "d < de" using d gap DateFromDay_le_31 [of d] by linarith
  have re_day: "MakeDay (YearFromDay de) (MonthFromDay de) (DateFromDay d)
                = de + (DateFromDay d - DateFromDay de)"
    using MakeDay_of_Day [of de "DateFromDay d - DateFromDay de"] by simp
  have lt2: "d < de + (DateFromDay d - DateFromDay de)"
    using d gap DateFromDay_le_31 [of de] by linarith
  show ?thesis
  proof (cases "DateFromDay d \<ge> DateFromDay de")
    case True
    then have "addMonths (Date t) 1 = Date (MakeDate de tw)"
      using eodm day_e by (simp add: Let_def getDate_def d_def)
    moreover have "t < MakeDate de tw" unfolding t [symmetric] 
      using MakeDate_less [OF lt1, of tw] t by simp
    ultimately show ?thesis by blast
  next
    case False
    then have "addMonths (Date t) 1
                 = Date (MakeDate (de + (DateFromDay d - DateFromDay de)) tw)"
      using eodm day_e re_day
      by (simp add: Let_def getDate_def getMonth_def getFullYear_def setFullYearJS_def
          d_def [symmetric] tw_def [symmetric])
    moreover have "t < MakeDate (de + (DateFromDay d - DateFromDay de)) tw"
      using MakeDate_less [OF lt2, of tw] t by simp
    ultimately show ?thesis by blast
  qed
qed

subsection \<open>The loops return from a valid date\<close>

lemma monthlyLoop_returns:
  "\<exists>y. monthlyLoop (Date rs) (Date re) billAmount (Date cur) totalAmount = Some y"
proof (induction "nat (re + 1 - cur)" arbitrary: cur totalAmount rule: less_induct)
  case less
  obtain t' where t': "addMonths (Date cur) 1 = Date t'" "cur < t'"
    using addMonths_advances [of cur] by blast
  show ?case
  proof (cases "isAfter (Date cur) (Date re)")
    case True
    then show ?thesis by (subst monthlyLoop.simps) simp
  next
    case False
    then have le: "cur \<le> re" by (simp add: isAfter_def dateLess_def)
    show ?thesis
    proof (cases "isSameDay (addMonths (Date cur) 1) (Date cur)")
      case True
      with False show ?thesis by (subst monthlyLoop.simps) simp
    next
      case same: False
      have "nat (re + 1 - t') < nat (re + 1 - cur)" using le t'(2) by linarith
      from less [OF this]
      obtain y where "monthlyLoop (Date rs) (Date re) billAmount (Date t')
                        (if isWithinInterval (Date cur) (Date rs) (Date re)
                         then totalAmount + billAmount else totalAmount) = Some y"
        by blast
      with False same t'(1) show ?thesis by (subst monthlyLoop.simps) simp
    qed
  qed
qed

lemma addIntervalFn_forward:
  "\<exists>t'. addIntervalFn freq (Date t) 1 = Date t' \<and> t < t'"
  using msPerDay_pos by (simp add: addIntervalFn_def addWeeks_Date)

lemma forwardLoop_returns:
  "\<exists>y. forwardLoop freq (Date rs) (Date re) billAmount (Date cur) totalAmount = Some y"
proof (induction "nat (re + 1 - cur)" arbitrary: cur totalAmount rule: less_induct)
  case less
  obtain t' where t': "addIntervalFn freq (Date cur) 1 = Date t'" "cur < t'"
    using addIntervalFn_forward [of freq cur] by blast
  show ?case
  proof (cases "dateLessEq (Date cur) (Date re)")
    case False
    then show ?thesis by (subst forwardLoop.simps) simp
  next
    case True
    then have le: "cur \<le> re" by (simp add: dateLessEq_def)
    show ?thesis
    proof (cases "isSameDay (addIntervalFn freq (Date cur) 1) (Date cur)")
      case same: True
      with True show ?thesis by (subst forwardLoop.simps) simp
    next
      case same: False
      have "nat (re + 1 - t') < nat (re + 1 - cur)" using le t'(2) by linarith
      from less [OF this]
      obtain y where "forwardLoop freq (Date rs) (Date re) billAmount (Date t')
                        (if dateLessEq (Date rs) (Date cur)
                            \<and> isWithinInterval (Date cur) (Date rs) (Date re)
                         then totalAmount + billAmount else totalAmount) = Some y"
        by blast
      with True same t'(1) show ?thesis by (subst forwardLoop.simps) simp
    qed
  qed
qed

lemma addIntervalFn_valid: "\<exists>t'. addIntervalFn freq (Date t) n = Date t'"
  by (simp add: addIntervalFn_def addWeeks_Date)

text \<open>The backward walk returns, after at most 1000 iterations, at a valid date.\<close>

lemma backwardLoop_returns:
  assumes "0 \<le> i"
  shows "\<exists>t' i'. backwardLoop freq (Date rs) (Date t) i = Some (Date t', i')
           \<and> i' \<le> max i maxBackwardIterations"
  using assms
proof (induction "nat (maxBackwardIterations - i)" arbitrary: t i rule: less_induct)
  case less
  show ?case
  proof (cases "dateLess (Date rs) (Date t) \<and> i < maxBackwardIterations")
    case False
    then show ?thesis by (subst backwardLoop.simps) auto
  next
    case True
    obtain u where u: "addIntervalFn freq (Date t) (- 1) = Date u"
      using addIntervalFn_valid by blast
    have "nat (maxBackwardIterations - (i + 1)) < nat (maxBackwardIterations - i)"
      using True by linarith
    from less(1) [OF this, of u] less(2)
    obtain t' i' where "backwardLoop freq (Date rs) (Date u) (i + 1) = Some (Date t', i')"
      "i' \<le> max (i + 1) maxBackwardIterations"
      by auto
    with True u show ?thesis by (subst backwardLoop.simps) auto
  qed
qed

lemma setDate_valid: "\<exists>t'. setDate (Date t) (Num n) = Date t'"
  by simp

lemma addMonths_valid: "\<exists>t'. addMonths (Date t) 1 = Date t'"
  using addMonths_advances by blast

lemma processBill_returns:
  assumes "\<not> monthlyWithNaNDay bill"
  shows "\<exists>y. processBill (Date rs) (Date re) bill totalAmount = Some y"
proof (cases "amount bill")
  case NaN
  then show ?thesis by (simp add: processBill_def)
next
  case (Num billAmount)
  consider (oneoff) "frequency bill = ''one-off''"
    | (monthly) "frequency bill = ''monthly''"
    | (weekly) "frequency bill = ''weekly'' \<or> frequency bill = ''fortnightly''"
    | (other) "frequency bill \<noteq> ''one-off''" "frequency bill \<noteq> ''monthly''"
        "frequency bill \<noteq> ''weekly''" "frequency bill \<noteq> ''fortnightly''"
    by blast
  then show ?thesis
  proof cases
    case oneoff
    with Num show ?thesis by (simp add: processBill_def split: option.splits)
  next
    case monthly
    show ?thesis
    proof (cases "dueDate bill")
      case None
      with Num monthly show ?thesis by (simp add: processBill_def)
    next
      case (Some dom)
      with assms Num monthly obtain n where n: "dom = Num n"
        by (cases dom) (auto simp: monthlyWithNaNDay_def)
      obtain s where s: "setDate (Date rs) (Num n) = Date s" by auto
      obtain s' where s': "addMonths (Date s) 1 = Date s'" using addMonths_valid by blast
      show ?thesis
        using Num monthly Some n s s'
        by (simp add: processBill_def monthlyLoop_returns del: setDate.simps addMonths.simps)
    qed
  next
    case weekly
    show ?thesis
    proof (cases "creationTime bill")
      case NaN
      with Num weekly show ?thesis by (auto simp: processBill_def)
    next
      case c: (Num anchor)
      obtain t' i' where b: "backwardLoop (frequency bill) (Date rs) (Date anchor) 0 = Some (Date t', i')"
        using backwardLoop_returns [of 0 "frequency bill" rs anchor] by auto
      obtain y where "forwardLoop (frequency bill) (Date rs) (Date re) billAmount (Date t') totalAmount = Some y"
        using forwardLoop_returns by blast
      with Num weekly c b show ?thesis by (auto simp: processBill_def)
    qed
  next
    case other
    with Num show ?thesis by (simp add: processBill_def)
  qed
qed

lemma processBill_never_returns:
  assumes "monthlyWithNaNDay bill"
  shows "processBill (Date rs) (Date re) bill totalAmount = None"
proof (cases "amount bill")
  case NaN
  with assms show ?thesis by (simp add: monthlyWithNaNDay_def)
next
  case (Num billAmount)
  with assms show ?thesis
    by (simp add: monthlyWithNaNDay_def processBill_def isBefore_def dateLess_def
        monthlyLoop_Invalid)
qed

lemma forEachBill_returns:
  assumes "\<forall>bill \<in> set bills. \<not> monthlyWithNaNDay bill"
  shows "\<exists>y. forEachBill (Date rs) (Date re) bills totalAmount = Some y"
  using assms
proof (induction bills arbitrary: totalAmount)
  case Nil
  show ?case by simp
next
  case (Cons b bs)
  obtain t where "processBill (Date rs) (Date re) b totalAmount = Some t"
    using processBill_returns [of b rs re totalAmount] Cons.prems by auto
  moreover obtain y where "forEachBill (Date rs) (Date re) bs t = Some y"
    using Cons.IH [of t] Cons.prems by auto
  ultimately show ?case by simp
qed

lemma forEachBill_None:
  assumes "\<exists>bill \<in> set bills. monthlyWithNaNDay bill"
  shows "forEachBill (Date rs) (Date re) bills totalAmount = None"
  using assms
proof (induction bills arbitrary: totalAmount)
  case Nil
  then show ?case by simp
next
  case (Cons b bs)
  show ?case
  proof (cases "monthlyWithNaNDay b")
    case True
    then show ?thesis by (simp add: processBill_never_returns)
  next
    case False
    with Cons.prems have "\<exists>bill \<in> set bs. monthlyWithNaNDay bill" by auto
    from Cons.IH [OF this] show ?thesis by (simp split: option.splits)
  qed
qed

lemma calculateUpcomingBillsTotal_returns:
  assumes "\<forall>bill \<in> set bills. \<not> monthlyWithNaNDay bill"
  shows "\<exists>y. calculateUpcomingBillsTotal bills \<lparr>startDate = Date s, endDate = Date e\<rparr>
               = Some (Inr y)"
  using forEachBill_returns [OF assms, of "setHoursJS s 0" "setHoursJS e (msPerDay - 1)" 0]
  by (auto simp: calculateUpcomingBillsTotal_def)

text \<open>
  With valid ends of the range, the expander fails to return exactly when the list has a
  monthly bill whose day is NaN.
\<close>

lemma calculateUpcomingBillsTotal_None_iff:
  "calculateUpcomingBillsTotal bills \<lparr>startDate = Date s, endDate = Date e\<rparr> = None
     \<longleftrightarrow> (\<exists>bill \<in> set bills. monthlyWithNaNDay bill)"
proof (cases "\<exists>bill \<in> set bills. monthlyWithNaNDay bill")
  case True
  from forEachBill_None [OF this] True show ?thesis
    by (simp add: calculateUpcomingBillsTotal_def)
next
  case False
  then have "\<forall>bill \<in> set bills. \<not> monthlyWithNaNDay bill" by simp
  from calculateUpcomingBillsTotal_returns [OF this, of s e] False show ?thesis by auto
qed

subsection \<open>Weekdays and the schedule loop\<close>

lemma next_weekday_arith:
  fixes g n :: int
  assumes "0 \<le> g" "g < 7" "0 \<le> n" "n < 7"
  shows "1 \<le> initialDaysToAdd n g \<and> initialDaysToAdd n g \<le> 7
         \<and> (g + initialDaysToAdd n g) mod 7 = n
         \<and> (\<forall>j. 1 \<le> j \<and> j < initialDaysToAdd n g \<longrightarrow> (g + j) mod 7 \<noteq> n)
         \<and> (g = n \<longrightarrow> initialDaysToAdd n g = 7)"
proof -
  have g: "g = 0 \<or> g = 1 \<or> g = 2 \<or> g = 3 \<or> g = 4 \<or> g = 5 \<or> g = 6" using assms by arith
  have n: "n = 0 \<or> n = 1 \<or> n = 2 \<or> n = 3 \<or> n = 4 \<or> n = 5 \<or> n = 6" using assms by arith
  have j: "j = 1 \<or> j = 2 \<or> j = 3 \<or> j = 4 \<or> j = 5 \<or> j = 6" if "1 \<le> j" "j < 7" for j :: int
    using that by arith
  have k: "1 \<le> initialDaysToAdd n g \<and> initialDaysToAdd n g \<le> 7
         \<and> (g + initialDaysToAdd n g) mod 7 = n \<and> (g = n \<longrightarrow> initialDaysToAdd n g = 7)"
    using g n by (elim disjE) (simp_all add: initialDaysToAdd_def)
  have "(g + j) mod 7 \<noteq> n" if "1 \<le> j" "j < initialDaysToAdd n g" for j
  proof -
    have "j < 7" using that k by linarith
    from j [OF that(1) this] that(2) g n show ?thesis
      by (elim disjE) (simp_all add: initialDaysToAdd_def)
  qed
  with k show ?thesis by blast
qed

lemma Day_add_days: "Day (t + j * msPerDay) = Day t + j"
  using msPerDay_pos by (simp add: Day_def)

lemma getDay_add_days: "getDay (t + j * msPerDay) = (getDay t + j) mod 7"
  unfolding getDay_def WeekDay_def Day_add_days by (simp add: mod_simps ac_simps)

lemma getDay_range: "0 \<le> getDay t \<and> getDay t < 7"
  by (simp add: getDay_def WeekDay_def)

lemma dayOfWeekMap_NumberValue:
  assumes "dayOfWeekMap key = NumberValue n"
  shows "0 \<le> n \<and> n < 7"
  using assms by (auto simp: dayOfWeekMap_def split: if_splits)

lemma toLowerCase_Nil: "toLowerCase [] = []"
  by (simp add: toLowerCase_def)

lemma calculateBillsBetweenDates_returns:
  assumes "\<forall>bill \<in> set bills. \<not> monthlyWithNaNDay bill"
  shows "\<exists>y. calculateBillsBetweenDates bills (Date s) (Date e) = Some (Inr y)"
  using calculateUpcomingBillsTotal_returns [OF assms] by (simp add: calculateBillsBetweenDates_def)

lemma scheduleLoop_returns:
  assumes "\<forall>bill \<in> set bills. \<not> monthlyWithNaNDay bill"
  shows "\<exists>rest. scheduleLoop bills a iv n (Date c) acc = Some (Inr (acc @ rest))
           \<and> length rest = n \<and> (0 < n \<longrightarrow> allowanceDate (hd rest) = Date c)"
proof (induction n arbitrary: c acc)
  case 0
  show ?case by simp
next
  case (Suc n)
  obtain y where y: "calculateBillsBetweenDates bills (Date c) (Date (c + iv * msPerDay)) = Some (Inr y)"
    using calculateBillsBetweenDates_returns [OF assms] by blast
  define item where "item = \<lparr>allowanceDate = Date c, allowanceAmount = a, billsDueInPeriod = y,
      leftoverForPeriod = Some (a - y)\<rparr>"
  obtain rest where rest: "scheduleLoop bills a iv n (Date (c + iv * msPerDay)) (acc @ [item])
      = Some (Inr ((acc @ [item]) @ rest))" "length rest = n"
    using Suc.IH [of "c + iv * msPerDay" "acc @ [item]"] by blast
  have "scheduleLoop bills a iv (Suc n) (Date c) acc = Some (Inr (acc @ (item # rest)))"
    using y rest(1) by (simp add: addDays_Date item_def del: addDays.simps)
  moreover have "length (item # rest) = Suc n" using rest(2) by simp
  moreover have "allowanceDate (hd (item # rest)) = Date c" by (simp add: item_def)
  ultimately show ?case by blast
qed

lemma scheduleLoop_items:
  assumes "scheduleLoop bills a iv n cur acc = Some (Inr items)"
    and "\<forall>it \<in> set acc. allowanceAmount it = a
           \<and> leftoverForPeriod it = Some (allowanceAmount it - billsDueInPeriod it)"
  shows "\<forall>it \<in> set items. allowanceAmount it = a
           \<and> leftoverForPeriod it = Some (allowanceAmount it - billsDueInPeriod it)"
  using assms
proof (induction n arbitrary: cur acc)
  case 0
  then show ?case by simp
next
  case (Suc n)
  from Suc.prems(1) obtain y where
    y: "calculateBillsBetweenDates bills cur (addDays cur iv) = Some (Inr y)"
    by (auto split: option.splits sum.splits)
  with Suc.prems(1) have
    "scheduleLoop bills a iv n (addDays cur iv)
       (acc @ [\<lparr>allowanceDate = cur, allowanceAmount = a, billsDueInPeriod = y,
                leftoverForPeriod = Some (a - y)\<rparr>]) = Some (Inr items)"
    by simp
  from Suc.IH [OF this] Suc.prems(2) show ?case by simp
qed

subsection \<open>Rounding to the nearest double\<close>

text \<open>A rounding moves a positive number by at most the fraction \<open>2^-53\<close> of it.\<close>

lemma roundHalfEven_error: "\<bar>of_int (roundHalfEven m) - m\<bar> \<le> 1 / 2"
proof -
  have "of_int \<lfloor>m\<rfloor> \<le> m" "m < of_int \<lfloor>m\<rfloor> + 1" by linarith+
  then show ?thesis by (auto simp: roundHalfEven_def Let_def)
qed

lemma roundLoop_error:
  "0 < x \<Longrightarrow> 0 < ulp \<Longrightarrow> \<bar>roundLoop x ulp - x\<bar> \<le> x / 2 ^ 53"
proof (induction x ulp rule: roundLoop.induct)
  case (1 x ulp)
  show ?case
  proof (cases "2 ^ 53 \<le> x / ulp")
    case True
    with 1 show ?thesis by (subst roundLoop.simps) simp
  next
    case False
    show ?thesis
    proof (cases "x / ulp < 2 ^ 52")
      case True
      with False 1 show ?thesis by (subst roundLoop.simps) simp
    next
      case mid: False
      have r: "roundLoop x ulp = of_int (roundHalfEven (x / ulp)) * ulp"
        using False mid "1.prems" by (subst roundLoop.simps) simp
      have "of_int (roundHalfEven (x / ulp)) * ulp - x
              = (of_int (roundHalfEven (x / ulp)) - x / ulp) * ulp"
        using "1.prems" by (simp add: field_simps)
      then have "\<bar>roundLoop x ulp - x\<bar> = \<bar>of_int (roundHalfEven (x / ulp)) - x / ulp\<bar> * ulp"
        using r "1.prems" by (simp add: abs_mult)
      also have "\<dots> \<le> 1 / 2 * ulp"
        using roundHalfEven_error [of "x / ulp"] "1.prems" by (intro mult_right_mono) simp_all
      also have "\<dots> \<le> x / 2 ^ 53"
        using mid "1.prems" by (simp add: field_simps)
      finally show ?thesis .
    qed
  qed
qed

lemma roundDouble_error: "0 < x \<Longrightarrow> \<bar>roundDouble x - x\<bar> \<le> x / 2 ^ 53"
  using roundLoop_error [of x 1] by (simp add: roundDouble_def)

lemma roundDouble_pos: "0 < x \<Longrightarrow> 0 < roundDouble x"
proof -
  assume x: "0 < x"
  have "x / 2 ^ 53 < x" using x by (simp add: field_simps)
  with roundDouble_error [OF x] show ?thesis by linarith
qed

lemma round_trip_error:
  assumes a: "0 < a" and k: "1 \<le> k"
  shows "\<bar>roundDouble (roundDouble (a * k) / k) - a\<bar> \<le> a / 2 ^ 51"
proof -
  define r1 where "r1 = roundDouble (a * k)"
  have ak: "0 < a * k" using a k by simp
  have e1: "\<bar>r1 - a * k\<bar> \<le> a * k / 2 ^ 53"
    unfolding r1_def using ak by (rule roundDouble_error)
  have p1: "0 < r1" unfolding r1_def using ak by (rule roundDouble_pos)
  have q: "0 < r1 / k" using p1 k by simp
  have "r1 / k - a = (r1 - a * k) / k" using k by (simp add: field_simps)
  then have "\<bar>r1 / k - a\<bar> = \<bar>r1 - a * k\<bar> / k" using k by simp
  also have "\<dots> \<le> (a * k / 2 ^ 53) / k" using e1 k by (intro divide_right_mono) simp_all
  also have "\<dots> = a / 2 ^ 53" using k by simp
  finally have e2: "\<bar>r1 / k - a\<bar> \<le> a / 2 ^ 53" .
  then have le: "r1 / k \<le> a + a / 2 ^ 53" by linarith
  have e3: "\<bar>roundDouble (r1 / k) - r1 / k\<bar> \<le> (r1 / k) / 2 ^ 53"
    using q by (rule roundDouble_error)
  have "(r1 / k) / 2 ^ 53 \<le> (a + a / 2 ^ 53) / 2 ^ 53"
    using le by (intro divide_right_mono) simp_all
  also have "\<dots> \<le> 2 * a / 2 ^ 53" using a by (simp add: field_simps)
  finally have e4: "\<bar>roundDouble (r1 / k) - r1 / k\<bar> \<le> 2 * a / 2 ^ 53" using e3 by linarith
  have "\<bar>roundDouble (r1 / k) - a\<bar> \<le> 3 * a / 2 ^ 53" using e2 e4 by linarith
  also have "\<dots> \<le> a / 2 ^ 51" using a by (simp add: field_simps)
  finally show ?thesis by (simp add: r1_def)
qed

lemma roundLoop_double_ulp:
  assumes "0 < x" "0 < ulp"
  shows "roundLoop x (ulp * 2) = roundLoop x ulp"
proof (cases "2 ^ 53 \<le> x / ulp")
  case True
  with assms show ?thesis by (subst (2) roundLoop.simps) simp
next
  case False
  with assms have "\<not> 2 ^ 53 \<le> x / (ulp * 2)" "x / (ulp * 2) < 2 ^ 52"
    by (simp_all add: field_simps)
  with assms show ?thesis by (subst roundLoop.simps) simp
qed

lemma roundLoop_scale:
  assumes "0 < x" "0 < ulp"
  shows "roundLoop x (ulp * 2 ^ n) = roundLoop x ulp"
proof (induction n)
  case 0
  show ?case by simp
next
  case (Suc n)
  have "roundLoop x (ulp * 2 ^ Suc n) = roundLoop x (ulp * 2 ^ n * 2)"
    by (simp add: ac_simps)
  also have "\<dots> = roundLoop x (ulp * 2 ^ n)"
    using assms by (intro roundLoop_double_ulp) simp_all
  also have "\<dots> = roundLoop x ulp" by (rule Suc)
  finally show ?case .
qed

text \<open>The rounding of a positive number whose binade is known.\<close>

lemma roundDouble_binade:
  assumes x: "0 < x" and lo: "2 ^ 52 \<le> x * 2 ^ n" and hi: "x * 2 ^ n < 2 ^ 53"
  shows "roundDouble x = of_int (roundHalfEven (x * 2 ^ n)) / 2 ^ n"
proof -
  have u: "(0::real) < 1 / 2 ^ n" by simp
  have "roundLoop x (1 / 2 ^ n * 2 ^ n) = roundLoop x (1 / 2 ^ n)"
    using x u by (rule roundLoop_scale)
  then have "roundLoop x 1 = roundLoop x (1 / 2 ^ n)" by simp
  also have "\<dots> = of_int (roundHalfEven (x / (1 / 2 ^ n))) * (1 / 2 ^ n)"
  proof -
    have "\<not> (x \<le> 0 \<or> (1::real) / 2 ^ n \<le> 0)" using x u by linarith
    moreover have "\<not> 2 ^ 53 \<le> x / (1 / 2 ^ n)" using hi by simp
    moreover have "\<not> x / (1 / 2 ^ n) < 2 ^ 52" using lo by simp
    ultimately show ?thesis by (subst roundLoop.simps) (simp only: if_False)
  qed
  finally show ?thesis using x by (simp add: roundDouble_def)
qed


text \<open>A known value: the double of one tenth is 3602879701896397 / 2^55.\<close>

lemma double_one_tenth: "roundDouble (1 / 10) = 3602879701896397 / 2 ^ 55"
  by (subst roundDouble_binade [where n = 56]) (simp_all add: roundHalfEven_def)

text \<open>The roundings met on the round trip of 938.6 at 26 cycles a year.\<close>

lemma double_938_6:
  "roundDouble (9386 / 10) = 8256012910644429 / 2 ^ 43"
  "roundDouble (8256012910644429 / 2 ^ 43) = 8256012910644429 / 2 ^ 43"
  "roundDouble (8256012910644429 / 2 ^ 43 * 26) = 6708010489898599 / 2 ^ 38"
  "roundDouble (6708010489898599 / 2 ^ 38 / 26) = 8256012910644430 / 2 ^ 43"
proof -
  show "roundDouble (9386 / 10) = 8256012910644429 / 2 ^ 43"
    by (subst roundDouble_binade [where n = 43]) (simp_all add: roundHalfEven_def)
  show "roundDouble (8256012910644429 / 2 ^ 43) = 8256012910644429 / 2 ^ 43"
    by (subst roundDouble_binade [where n = 43]) (simp_all add: roundHalfEven_def)
  show "roundDouble (8256012910644429 / 2 ^ 43 * 26) = 6708010489898599 / 2 ^ 38"
    by (subst roundDouble_binade [where n = 38]) (simp_all add: roundHalfEven_def)
  show "roundDouble (6708010489898599 / 2 ^ 38 / 26) = 8256012910644430 / 2 ^ 43"
    by (subst roundDouble_binade [where n = 43]) (simp_all add: roundHalfEven_def)
qed

text \<open>The functions in double precision are the exact ones with the result rounded.\<close>

lemma calculateAnnualSalaryDouble_exact:
  "calculateAnnualSalaryDouble amt freq = map_option roundDouble (calculateAnnualSalary amt freq)"
  by (cases amt) (simp_all add: calculateAnnualSalaryDouble_def calculateAnnualSalary_def)

lemma calculateTargetCycleAmountDouble_exact:
  "calculateTargetCycleAmountDouble annual target
     = map_option roundDouble (calculateTargetCycleAmount annual target)"
  by (cases annual)
     (simp_all add: calculateTargetCycleAmountDouble_def calculateTargetCycleAmount_def)

text \<open>The round trip in double precision, unfolded.\<close>

lemma round_trip_Double:
  assumes a: "0 < a" and f: "f \<in> {''monthly'', ''fortnightly'', ''weekly''}"
  shows "calculateTargetCycleAmountDouble
           (calculateAnnualSalaryDouble (Some a) (Some f)) (Some f)
         = Some (roundDouble (roundDouble (a * cycleMultiplier f) / cycleMultiplier f))"
proof -
  have p: "\<And>k. 1 \<le> k \<Longrightarrow> \<not> roundDouble (a * k) \<le> 0"
    using a roundDouble_pos [of "a * k" for k] by (simp add: not_le)
  from f consider "f = ''monthly''" | "f = ''fortnightly''" | "f = ''weekly''" by blast
  then show ?thesis
  proof cases
    case 1
    have s: "calculateAnnualSalaryDouble (Some a) (Some ''monthly'') = Some (roundDouble (a * 12))"
      using a by (simp add: calculateAnnualSalaryDouble_def truthy_def)
    show ?thesis unfolding 1 s
      using p [of 12] by (simp add: calculateTargetCycleAmountDouble_def truthy_def cycleMultiplier_def)
  next
    case 2
    have s: "calculateAnnualSalaryDouble (Some a) (Some ''fortnightly'') = Some (roundDouble (a * 26))"
      using a by (simp add: calculateAnnualSalaryDouble_def truthy_def)
    show ?thesis unfolding 2 s
      using p [of 26] by (simp add: calculateTargetCycleAmountDouble_def truthy_def cycleMultiplier_def)
  next
    case 3
    have s: "calculateAnnualSalaryDouble (Some a) (Some ''weekly'') = Some (roundDouble (a * 52))"
      using a by (simp add: calculateAnnualSalaryDouble_def truthy_def)
    show ?thesis unfolding 3 s
      using p [of 52] by (simp add: calculateTargetCycleAmountDouble_def truthy_def cycleMultiplier_def)
  qed
qed

section \<open>Example data\<close>

text \<open>
  Dates used below: 2024-04-15 is day 19828 after the epoch, a Monday, and begins at
  1713139200000 ms; 10:00 on that day is 1713175200000; 2024-04-20 begins at
  1713571200000, 2024-04-25 at 1714003200000, 2024-04-29 at 1714348800000, 2024-04-30
  at 1714435200000, 2024-05-01 at 1714521600000 and 2024-05-10 at 1715299200000.
\<close>

definition cancelledSub :: Bill where
  "cancelledSub =
     \<lparr>name = ''Cancelled Sub'', amount = Num 20, frequency = ''monthly'',
      dueDate = Some (Num 20), isActive = Some False, creationTime = Num 1672531200000\<rparr>"

definition gymBill :: Bill where
  "gymBill =
     \<lparr>name = ''Gym'', amount = Num 250, frequency = ''fortnightly'', dueDate = None,
      isActive = Some True, creationTime = Num 1713571200000\<rparr>"

definition noonBill :: Bill where
  "noonBill =
     \<lparr>name = ''Gym'', amount = Num 250, frequency = ''fortnightly'', dueDate = None,
      isActive = Some True, creationTime = Num 1713614400000\<rparr>"

definition nanBill :: Bill where
  "nanBill =
     \<lparr>name = ''Rent'', amount = Num 1500, frequency = ''monthly'', dueDate = Some NaN,
      isActive = Some True, creationTime = Num 1672531200000\<rparr>"

definition mondayWeekly :: Settings where
  "mondayWeekly =
     \<lparr>desiredPayFrequency = Some ''weekly'', desiredPayDayOfWeek = Some ''monday'',
      desiredPayAmount = Some 100\<rparr>"

definition upcomingGig :: Bill where
  "upcomingGig =
     \<lparr>name = ''Upcoming Gig'', amount = Num 250, frequency = ''one-off'',
      dueDate = Some (Num 1714003200000), isActive = Some True,
      creationTime = Num 1672531200000\<rparr>"

definition card31 :: Bill where
  "card31 =
     \<lparr>name = ''Card'', amount = Num 10, frequency = ''monthly'', dueDate = Some (Num 31),
      isActive = Some True, creationTime = Num 1672531200000\<rparr>"

text \<open>
  The bills of the repository's tests of the expander (they import \<^verbatim>\<open>../bills\<close>) and
  the totals the tests expect: 930 from 2024-04-15 10:00 to 2024-04-29, 530 from
  2024-04-20 to 2024-04-25, 1980 from 2024-04-25 to 2024-05-05, and, between dates, 400
  from 2024-04-15 10:00 to 2024-04-19 and 2680 from 2024-04-19 to 2024-05-03.
\<close>

definition testBill :: "string \<Rightarrow> real \<Rightarrow> string \<Rightarrow> int number option \<Rightarrow> bool \<Rightarrow> int \<Rightarrow> Bill" where
  "testBill n a f d act c =
     \<lparr>name = n, amount = Num a, frequency = f, dueDate = d, isActive = Some act,
      creationTime = Num c\<rparr>"

definition testBills :: "Bill list" where
  "testBills =
     [testBill ''Rent'' 1500 ''monthly'' (Some (Num 1)) True 1672531200000,
      testBill ''Loan'' 300 ''monthly'' (Some (Num 20)) True 1672531200000,
      testBill ''Salary Advance Repay'' 250 ''fortnightly'' None True 1712275200000,
      testBill ''Groceries'' 150 ''weekly'' None True 1712707200000,
      testBill ''Past Concert'' 100 ''one-off'' (Some (Num 1710892800000)) True 1672531200000,
      testBill ''Upcoming Gig'' 80 ''one-off'' (Some (Num 1714003200000)) True 1672531200000,
      testBill ''Future Flight'' 450 ''one-off'' (Some (Num 1715299200000)) True 1672531200000,
      testBill ''Cancelled Sub'' 20 ''monthly'' (Some (Num 10)) False 1672531200000]"

lemma test_suite_totals:
  "calculateUpcomingBillsTotal testBills
     \<lparr>startDate = Date 1713175200000, endDate = Date 1714348800000\<rparr> = Some (Inr 930)"
  "calculateUpcomingBillsTotal testBills
     \<lparr>startDate = Date 1713571200000, endDate = Date 1714003200000\<rparr> = Some (Inr 530)"
  "calculateUpcomingBillsTotal testBills
     \<lparr>startDate = Date 1714003200000, endDate = Date 1714867200000\<rparr> = Some (Inr 1980)"
  "calculateBillsBetweenDates testBills (Date 1713175200000) (Date 1713484800000)
     = Some (Inr 400)"
  "calculateBillsBetweenDates testBills (Date 1713484800000) (Date 1714694400000)
     = Some (Inr 2680)"
  by code_simp+

section \<open>The bill occurrence expander\<close>

text \<open>
  C1. The claim: a bill with \<^verbatim>\<open>isActive == false\<close> contributes nothing to the total of
  \<^verbatim>\<open>calculateUpcomingBillsTotal\<close>, for every interval. The function never reads
  \<^verbatim>\<open>isActive\<close>: an inactive monthly bill of 20 due on the 20th is counted in the range
  from 2024-04-15 to 2024-04-29. (The bill of the test named "should ignore inactive
  bills" is due on the 10th, outside the range of the test, so the test passes.)
\<close>

theorem inactive_bill_is_counted:
  "isActive cancelledSub = Some False
   \<and> calculateUpcomingBillsTotal [cancelledSub]
        \<lparr>startDate = Date 1713139200000, endDate = Date 1714348800000\<rparr> = Some (Inr 20)
   \<and> calculateBillsBetweenDates [cancelledSub] (Date 1713139200000) (Date 1714348800000)
        = Some (Inr 20)"
  by code_simp

text \<open>In general: the value of \<^verbatim>\<open>isActive\<close> never changes a total.\<close>

lemma processBill_ignores_isActive:
  "processBill rs re (bill\<lparr>isActive := act\<rparr>) totalAmount = processBill rs re bill totalAmount"
  by (simp add: processBill_def cong: if_cong number.case_cong option.case_cong)

lemma forEachBill_ignores_isActive:
  "forEachBill rs re (map (\<lambda>bill. bill\<lparr>isActive := act bill\<rparr>) bills) totalAmount
     = forEachBill rs re bills totalAmount"
  by (induction bills arbitrary: totalAmount)
     (simp_all add: processBill_ignores_isActive cong: option.case_cong)

lemma calculateUpcomingBillsTotal_ignores_isActive:
  "calculateUpcomingBillsTotal (map (\<lambda>bill. bill\<lparr>isActive := act bill\<rparr>) bills) r
     = calculateUpcomingBillsTotal bills r"
  by (simp add: calculateUpcomingBillsTotal_def Let_def forEachBill_ignores_isActive)

text \<open>
  C2. The claim: the total over \<open>[a, c]\<close> is the sum of the totals over \<open>[a, b]\<close> and
  \<open>[b + 1, c]\<close>. A fortnightly bill of 250 anchored on 2024-04-20, with \<open>a\<close> = 2024-04-15,
  \<open>b\<close> = 2024-04-30 and \<open>c\<close> = 2024-05-10: the whole range and the first part start before
  the anchor, so the backward walk runs forward to its limit and nothing is counted; the
  second part starts after the anchor and counts the occurrence of 2024-05-04.
\<close>

theorem interval_additivity_fails_for_fortnightly_bill:
  "calculateUpcomingBillsTotal [gymBill]
     \<lparr>startDate = Date 1713139200000, endDate = Date 1715299200000\<rparr> = Some (Inr 0)
   \<and> calculateUpcomingBillsTotal [gymBill]
     \<lparr>startDate = Date 1713139200000, endDate = Date 1714435200000\<rparr> = Some (Inr 0)
   \<and> calculateUpcomingBillsTotal [gymBill]
     \<lparr>startDate = Date 1714521600000, endDate = Date 1715299200000\<rparr> = Some (Inr 250)"
proof -
  have whole: "processBill (Date 1713139200000) (Date 1715385599999) gymBill 0 = Some 0"
    by (rule processBill_fortnightly_late [where anchor = 1713571200000])
       (simp_all add: gymBill_def msPerDay_def)
  have first: "processBill (Date 1713139200000) (Date 1714521599999) gymBill 0 = Some 0"
    by (rule processBill_fortnightly_late [where anchor = 1713571200000])
       (simp_all add: gymBill_def msPerDay_def)
  have second: "calculateUpcomingBillsTotal [gymBill]
     \<lparr>startDate = Date 1714521600000, endDate = Date 1715299200000\<rparr> = Some (Inr 250)"
    by code_simp
  show ?thesis
    using whole first second
    by (simp add: calculateUpcomingBillsTotal_def setHoursJS_def MakeDate_def Day_def
        msPerDay_def)
qed

text \<open>
  A second way in which the totals fail to add up: a monthly bill due on the 31st. From
  2024-01-15 the walk visits 31 January, 29 February and then 29 March (each step starts
  from the clamped date), so the range to 2024-03-31 counts three occurrences; the range
  from 2024-03-30 to 2024-03-31 starts afresh and counts 31 March.
\<close>

lemma interval_additivity_fails_for_monthly_day_31:
  "calculateUpcomingBillsTotal [card31]
     \<lparr>startDate = Date 1705276800000, endDate = Date 1711843200000\<rparr> = Some (Inr 30)"
  "calculateUpcomingBillsTotal [card31]
     \<lparr>startDate = Date 1705276800000, endDate = Date 1711670400000\<rparr> = Some (Inr 30)"
  "calculateUpcomingBillsTotal [card31]
     \<lparr>startDate = Date 1711756800000, endDate = Date 1711843200000\<rparr> = Some (Inr 10)"
  by code_simp+

text \<open>
  C5, as stated: a fortnightly bill whose anchor is after the start of the day of the
  range's start date contributes 0 whenever the end of the range is less than 2000 weeks
  after the anchor. The range ends at the last millisecond of the day of its end date:
  with the anchor at noon of 2024-04-20 and the end date at midnight 14000 days later
  (2923171200000, twelve hours before the anchor plus 2000 weeks), the forward walk
  starts at noon of the end date and counts the bill once.
\<close>

theorem fortnightly_late_end_date_counterexample:
  "frequency noonBill = ''fortnightly''
   \<and> creationTime noonBill = Num 1713614400000
   \<and> setHoursJS 1713139200000 0 < 1713614400000
   \<and> (2923171200000 :: int) < 1713614400000 + 2000 * (7 * msPerDay)
   \<and> calculateUpcomingBillsTotal [noonBill]
        \<lparr>startDate = Date 1713139200000, endDate = Date 2923171200000\<rparr> = Some (Inr 250)
   \<and> calculateUpcomingBillsTotal []
        \<lparr>startDate = Date 1713139200000, endDate = Date 2923171200000\<rparr> = Some (Inr 0)"
proof -
  have b: "backwardLoop ''fortnightly'' (Date 1713139200000) (Date 1713614400000) 0
             = Some (Date 2923214400000, 1000)"
    using backwardLoop_not_weekly [of "''fortnightly''" 1713139200000 1713614400000 0]
    by (simp add: maxBackwardIterations_def msPerDay_def)
  have f: "forwardLoop ''fortnightly'' (Date 1713139200000) (Date 2923257599999) 250
             (Date 2923214400000) 0 = Some 250"
    by code_simp
  have p: "processBill (Date 1713139200000) (Date 2923257599999) noonBill 0 = Some 250"
    using b f by (simp add: processBill_def noonBill_def)
  show ?thesis
    using p
    by (simp add: calculateUpcomingBillsTotal_def setHoursJS_def MakeDate_def Day_def
        msPerDay_def noonBill_def)
qed

text \<open>
  C5, amended: for every fortnightly bill whose anchor is strictly after the start of the
  day of the range's start date, and every range such that the end of the day of its end
  date is less than 2000 weeks after the anchor, the bill contributes nothing: the total
  of a list with the bill is the total of the list without it.
\<close>

theorem fortnightly_anchor_after_start_contributes_nothing:
  assumes "frequency bill = ''fortnightly''"
    and "creationTime bill = Num anchor"
    and "startDate r = Date s" and "endDate r = Date e"
    and "setHoursJS s 0 < anchor"
    and "setHoursJS e (msPerDay - 1) < anchor + 2000 * (7 * msPerDay)"
  shows "calculateUpcomingBillsTotal (xs @ bill # ys) r = calculateUpcomingBillsTotal (xs @ ys) r"
proof -
  have "\<And>t. processBill (Date (setHoursJS s 0)) (Date (setHoursJS e (msPerDay - 1))) bill t
          = Some t"
    using assms(1,2,5,6) by (rule processBill_fortnightly_late)
  then have "forEachBill (Date (setHoursJS s 0)) (Date (setHoursJS e (msPerDay - 1)))
               (xs @ bill # ys) 0
             = forEachBill (Date (setHoursJS s 0)) (Date (setHoursJS e (msPerDay - 1)))
                 (xs @ ys) 0"
    by (rule forEachBill_skip)
  then show ?thesis
    using assms(3,4) by (simp add: calculateUpcomingBillsTotal_def)
qed

theorem fortnightly_anchor_after_start_contributes_nothing_witness:
  "frequency gymBill = ''fortnightly''
   \<and> creationTime gymBill = Num 1713571200000
   \<and> setHoursJS 1713139200000 0 < 1713571200000
   \<and> setHoursJS 1715299200000 (msPerDay - 1) < 1713571200000 + 2000 * (7 * msPerDay)
   \<and> calculateUpcomingBillsTotal ([cancelledSub] @ gymBill # [])
        \<lparr>startDate = Date 1713139200000, endDate = Date 1715299200000\<rparr>
      = calculateUpcomingBillsTotal ([cancelledSub] @ [])
        \<lparr>startDate = Date 1713139200000, endDate = Date 1715299200000\<rparr>"
  using fortnightly_anchor_after_start_contributes_nothing
    [of gymBill 1713571200000
        "\<lparr>startDate = Date 1713139200000, endDate = Date 1715299200000\<rparr>"
        1713139200000 1715299200000 "[cancelledSub]" "[]"]
  by (simp add: gymBill_def setHoursJS_def MakeDate_def Day_def msPerDay_def)

text \<open>
  C10. The claim: \<^verbatim>\<open>calculateUpcomingBillsTotal\<close> terminates for every input. A monthly
  bill whose \<^verbatim>\<open>dueDate\<close> is NaN passes the check \<^verbatim>\<open>dueDate < 1 || dueDate > 31\<close>;
  \<^verbatim>\<open>setDate\<close> then gives an Invalid Date, which is never after the end of the range,
  and \<^verbatim>\<open>isSameDay\<close> of two Invalid Dates is false, so the guard against a date that
  does not advance does not break the loop. The call never returns.
\<close>

theorem monthly_bill_with_NaN_day_never_returns:
  "calculateUpcomingBillsTotal [nanBill]
     \<lparr>startDate = Date 1713139200000, endDate = Date 1714348800000\<rparr> = None"
  by (simp add: calculateUpcomingBillsTotal_def processBill_def nanBill_def isBefore_def
      dateLess_def monthlyLoop_Invalid)

section \<open>Paydays and the projected schedule\<close>

text \<open>
  C4. The claim: the monthly next payday is this month's occurrence of the pay day if
  it has not passed, clamped to the last day of a shorter month. On 2024-04-15 with pay
  day 31, \<^verbatim>\<open>setDate(31)\<close> rolls over to 2024-05-01; \<^verbatim>\<open>originalMonth\<close> is read after
  the roll-over, so the clamping loop is never entered and the result is 1 May, not
  30 April.
\<close>

theorem monthly_payday_31_in_april_rolls_over:
  "getMonth (setHoursJS 1713175200000 0) = 3
   \<and> getDate (setHoursJS 1713175200000 0) = 15
   \<and> calculateNextPayday 1713175200000 (Some ''monthly'') (Some 31) None
        = Some (Date 1714521600000)
   \<and> getFullYear 1714521600000 = 2024
   \<and> getMonth 1714521600000 = 4
   \<and> getDate 1714521600000 = 1"
  by code_simp

text \<open>
  The same roll-over on the other branch: on 2024-01-31 with pay day 30 the pay day has
  passed, \<^verbatim>\<open>setMonth\<close> moves 30 January to 30 February, that is 1 March, and the
  result is 2024-03-30: February is skipped.
\<close>

lemma monthly_payday_30_on_31_january_skips_february:
  "getMonth (setHoursJS 1706695200000 0) = 0
   \<and> getDate (setHoursJS 1706695200000 0) = 31
   \<and> calculateNextPayday 1706695200000 (Some ''monthly'') (Some 30) None
        = Some (Date 1711756800000)
   \<and> getFullYear 1711756800000 = 2024
   \<and> getMonth 1711756800000 = 2
   \<and> getDate 1711756800000 = 30"
  by code_simp

text \<open>
  C8. The claim: \<^verbatim>\<open>generateProjectedSchedule\<close> returns an empty schedule and never
  throws when a setting is absent or the day or frequency is not a recognised value.
  The day \<^verbatim>\<open>constructor\<close> is not a day of the week, but \<^verbatim>\<open>dayOfWeekMap['constructor']\<close>
  is the inherited \<^verbatim>\<open>Object\<close> function and not \<^verbatim>\<open>undefined\<close>; the first allowance date
  becomes an Invalid Date and \<^verbatim>\<open>calculateBillsBetweenDates\<close> throws a RangeError when it
  formats the date for its log line.
\<close>

theorem schedule_throws_for_inherited_day_name:
  "generateProjectedSchedule 1713175200000
     \<lparr>desiredPayFrequency = Some ''weekly'', desiredPayDayOfWeek = Some ''constructor'',
      desiredPayAmount = Some 100\<rparr> [] 5 = Some (Inl RangeError)"
  by code_simp

text \<open>The same call, with the lookup that lets the day through: the result is not the empty schedule.\<close>

theorem schedule_throws_for_inherited_day_name_witness:
  "dayOfWeekMap (toLowerCase ''constructor'') = ObjectValue
   \<and> generateProjectedSchedule 1713175200000
        \<lparr>desiredPayFrequency = Some ''weekly'', desiredPayDayOfWeek = Some ''constructor'',
         desiredPayAmount = Some 100\<rparr> [] 5 \<noteq> Some (Inr [])"
proof -
  have "dayOfWeekMap (toLowerCase ''constructor'') = ObjectValue"
    by code_simp
  then show ?thesis
    using schedule_throws_for_inherited_day_name by simp
qed

text \<open>
  What the guards of \<^verbatim>\<open>generateProjectedSchedule\<close> do catch: an absent or empty
  frequency or day, an absent amount, a day whose lookup is \<^verbatim>\<open>undefined\<close>, and a
  frequency other than weekly and fortnightly all give the empty schedule.
\<close>

lemma generateProjectedSchedule_empty:
  assumes "\<not> truthy (desiredPayFrequency settings) \<or> \<not> truthy (desiredPayDayOfWeek settings)
           \<or> desiredPayAmount settings = None
           \<or> dayOfWeekMap (toLowerCase (the (desiredPayDayOfWeek settings))) = Undefined
           \<or> toLowerCase (the (desiredPayFrequency settings)) \<notin> {''weekly'', ''fortnightly''}"
  shows "generateProjectedSchedule now settings bills count' = Some (Inr [])"
  using assms
  by (auto simp: generateProjectedSchedule_def Let_def split: property.splits)

text \<open>
  C3, as stated: the first allowance date is the first occurrence of the desired weekday
  on or after today, so that a schedule asked for on the desired weekday starts today.
  2024-04-15 is a Monday; with Monday as the desired day the first allowance date is
  2024-04-22 (1713744000000), seven days after today (1713139200000).
\<close>

theorem first_allowance_on_target_day_counterexample:
  "setHoursJS 1713175200000 0 = 1713139200000
   \<and> getDay 1713139200000 = 1
   \<and> dayOfWeekMap (toLowerCase ''monday'') = NumberValue 1
   \<and> generateProjectedSchedule 1713175200000 mondayWeekly [] 1
       = Some (Inr [\<lparr>allowanceDate = Date 1713744000000, allowanceAmount = 100,
                     billsDueInPeriod = 0, leftoverForPeriod = Some 100\<rparr>])
   \<and> (1713744000000 :: int) = 1713139200000 + 7 * msPerDay"
  by code_simp

text \<open>
  C3, amended: for every complete settings record (a day of the week that the map knows,
  a weekly or fortnightly frequency, an amount), a positive count and bills on which the
  expander returns, the schedule has \<open>count\<close> items and the first allowance date is the
  first occurrence of the desired weekday strictly after today: \<open>k\<close> days after today
  with \<open>k\<close> from 1 to 7, on the desired weekday, with no day of that weekday strictly
  between; when today is the desired weekday the schedule starts seven days later.
\<close>

theorem first_allowance_strictly_after_today:
  assumes day: "desiredPayDayOfWeek settings = Some day"
    and n: "dayOfWeekMap (toLowerCase day) = NumberValue n"
    and freq: "desiredPayFrequency settings = Some f"
    and f: "toLowerCase f = ''weekly'' \<or> toLowerCase f = ''fortnightly''"
    and amt: "desiredPayAmount settings = Some a"
    and cnt: "0 < count'"
    and bills: "\<forall>bill \<in> set bills. \<not> monthlyWithNaNDay bill"
  shows "\<exists>items k. generateProjectedSchedule now settings bills count' = Some (Inr items)
           \<and> length items = nat count'
           \<and> allowanceDate (hd items) = Date (setHoursJS now 0 + k * msPerDay)
           \<and> 1 \<le> k \<and> k \<le> 7
           \<and> getDay (setHoursJS now 0 + k * msPerDay) = n
           \<and> (\<forall>j. 1 \<le> j \<and> j < k \<longrightarrow> getDay (setHoursJS now 0 + j * msPerDay) \<noteq> n)
           \<and> (getDay (setHoursJS now 0) = n \<longrightarrow> k = 7)"
proof -
  define today where "today = setHoursJS now 0"
  define k where "k = initialDaysToAdd n (getDay today)"
  have td: "truthy (Some day)"
    using n by (auto simp: truthy_def toLowerCase_Nil dayOfWeekMap_def)
  have tf: "truthy (Some f)"
    using f by (auto simp: truthy_def toLowerCase_Nil)
  have ar: "1 \<le> k \<and> k \<le> 7 \<and> (getDay today + k) mod 7 = n
         \<and> (\<forall>j. 1 \<le> j \<and> j < k \<longrightarrow> (getDay today + j) mod 7 \<noteq> n)
         \<and> (getDay today = n \<longrightarrow> k = 7)"
    unfolding k_def
    using getDay_range [of today] dayOfWeekMap_NumberValue [OF n]
    by (intro next_weekday_arith) simp_all
  have first: "setDateJS today (getDate today + k) = today + k * msPerDay"
    by (rule setDateJS_getDate)
  define iv :: int where "iv = (if toLowerCase f = ''weekly'' then 7 else 14)"
  have iv: "generateProjectedSchedule now settings bills count'
      = scheduleLoop bills a iv (nat count') (Date (today + k * msPerDay)) []"
    using f first
    by (auto simp: generateProjectedSchedule_def Let_def day n freq amt td tf iv_def
        today_def [symmetric] k_def [symmetric])
  obtain rest where rest: "scheduleLoop bills a iv (nat count') (Date (today + k * msPerDay)) []
      = Some (Inr ([] @ rest))" "length rest = nat count'"
      "0 < nat count' \<longrightarrow> allowanceDate (hd rest) = Date (today + k * msPerDay)"
    using scheduleLoop_returns [OF bills, of a iv "nat count'" "today + k * msPerDay" "[]"] by auto
  have "generateProjectedSchedule now settings bills count' = Some (Inr rest)"
    using iv rest(1) by simp
  moreover have "allowanceDate (hd rest) = Date (today + k * msPerDay)"
    using rest(3) cnt by simp
  ultimately show ?thesis
    using rest(2) ar by (auto simp: getDay_add_days today_def [symmetric])
qed

theorem first_allowance_strictly_after_today_witness:
  "\<exists>items. generateProjectedSchedule 1713175200000 mondayWeekly [upcomingGig] 2
              = Some (Inr items)
           \<and> length items = 2
           \<and> allowanceDate (hd items) = Date 1713744000000"
proof -
  have d: "dayOfWeekMap (toLowerCase ''monday'') = NumberValue 1"
    and f: "toLowerCase ''weekly'' = ''weekly'' \<or> toLowerCase ''weekly'' = ''fortnightly''"
    and g: "getDay (setHoursJS 1713175200000 0) = 1"
    and t: "setHoursJS 1713175200000 0 + 7 * msPerDay = 1713744000000"
    by code_simp+
  have b: "\<forall>bill \<in> set [upcomingGig]. \<not> monthlyWithNaNDay bill"
    by (simp add: monthlyWithNaNDay_def upcomingGig_def)
  from first_allowance_strictly_after_today
         [of mondayWeekly "''monday''" 1 "''weekly''" 100 2 "[upcomingGig]" 1713175200000,
          OF _ d _ f _ _ b]
  obtain items k where
    "generateProjectedSchedule 1713175200000 mondayWeekly [upcomingGig] 2 = Some (Inr items)"
    "length items = 2"
    "allowanceDate (hd items) = Date (setHoursJS 1713175200000 0 + k * msPerDay)"
    "getDay (setHoursJS 1713175200000 0) = 1 \<longrightarrow> k = 7"
    by (auto simp: mondayWeekly_def)
  with g t show ?thesis by auto
qed

text \<open>
  C9. For every item of a schedule that \<^verbatim>\<open>generateProjectedSchedule\<close> returns,
  \<^verbatim>\<open>leftoverForPeriod\<close> is \<^verbatim>\<open>allowanceAmount - billsDueInPeriod\<close>, with no clamping,
  and \<^verbatim>\<open>allowanceAmount\<close> is the \<^verbatim>\<open>desiredPayAmount\<close> of the settings, the same for
  all items.
\<close>

theorem leftover_is_allowance_minus_bills:
  assumes "generateProjectedSchedule now settings bills count' = Some (Inr items)"
    and "item \<in> set items"
  shows "leftoverForPeriod item = Some (allowanceAmount item - billsDueInPeriod item)
         \<and> desiredPayAmount settings = Some (allowanceAmount item)"
proof -
  have ne: "items \<noteq> []" using assms(2) by auto
  from assms(1) ne obtain a where a: "desiredPayAmount settings = Some a"
    by (cases "desiredPayAmount settings") (auto simp: generateProjectedSchedule_def)
  from assms(1) ne obtain iv cur where
    "scheduleLoop bills a iv (nat count') cur [] = Some (Inr items)"
    using a
    by (auto simp: generateProjectedSchedule_def Let_def split: if_splits property.splits)
  from scheduleLoop_items [OF this] assms(2) a show ?thesis by simp
qed

text \<open>
  An allowance of 100 a week from Monday 2024-04-22 and a bill of 250 due on 2024-04-25:
  the leftover of the first period is 100 - 250 = -150.
\<close>

theorem leftover_is_allowance_minus_bills_witness:
  "generateProjectedSchedule 1713175200000 mondayWeekly [upcomingGig] 2
     = Some (Inr [\<lparr>allowanceDate = Date 1713744000000, allowanceAmount = 100,
                   billsDueInPeriod = 250, leftoverForPeriod = Some (- 150)\<rparr>,
                  \<lparr>allowanceDate = Date 1714348800000, allowanceAmount = 100,
                   billsDueInPeriod = 0, leftoverForPeriod = Some 100\<rparr>])
   \<and> leftoverForPeriod \<lparr>allowanceDate = Date 1713744000000, allowanceAmount = 100,
                   billsDueInPeriod = 250, leftoverForPeriod = Some (- 150)\<rparr>
       = Some (100 - 250)
   \<and> desiredPayAmount mondayWeekly = Some 100"
proof -
  have e: "generateProjectedSchedule 1713175200000 mondayWeekly [upcomingGig] 2
     = Some (Inr [\<lparr>allowanceDate = Date 1713744000000, allowanceAmount = 100,
                   billsDueInPeriod = 250, leftoverForPeriod = Some (- 150)\<rparr>,
                  \<lparr>allowanceDate = Date 1714348800000, allowanceAmount = 100,
                   billsDueInPeriod = 0, leftoverForPeriod = Some 100\<rparr>])"
    by code_simp
  from leftover_is_allowance_minus_bills
         [OF e, of "\<lparr>allowanceDate = Date 1713744000000, allowanceAmount = 100,
                     billsDueInPeriod = 250, leftoverForPeriod = Some (- 150)\<rparr>"]
  show ?thesis using e by simp
qed

section \<open>Cycle conversion: round trip, null results and multipliers\<close>

text \<open>
  C6, as stated: for every amount above 0 and every frequency, the target-cycle amount
  of the annual salary of the amount, at the same frequency, equals the amount. The
  number 938.6 of the program is the double 8256012910644429 / 2^43; its product with
  26 rounds to 6708010489898599 / 2^38, and the quotient of that by 26 rounds to
  8256012910644430 / 2^43, the next double above the amount.
\<close>

theorem cycle_round_trip_938_6_counterexample:
  "roundDouble (9386 / 10) = 8256012910644429 / 2 ^ 43
   \<and> roundDouble (8256012910644429 / 2 ^ 43) = 8256012910644429 / 2 ^ 43
   \<and> calculateAnnualSalaryDouble (Some (8256012910644429 / 2 ^ 43)) (Some ''fortnightly'')
       = Some (6708010489898599 / 2 ^ 38)
   \<and> calculateTargetCycleAmountDouble (Some (6708010489898599 / 2 ^ 38)) (Some ''fortnightly'')
       = Some (8256012910644430 / 2 ^ 43)
   \<and> (8256012910644430 / 2 ^ 43 :: real) \<noteq> 8256012910644429 / 2 ^ 43"
proof -
  have a: "calculateAnnualSalaryDouble (Some (8256012910644429 / 2 ^ 43)) (Some ''fortnightly'')
       = Some (roundDouble (8256012910644429 / 2 ^ 43 * 26))"
    by (simp add: calculateAnnualSalaryDouble_def truthy_def)
  have t: "calculateTargetCycleAmountDouble (Some (6708010489898599 / 2 ^ 38)) (Some ''fortnightly'')
       = Some (roundDouble (6708010489898599 / 2 ^ 38 / 26))"
    by (simp add: calculateTargetCycleAmountDouble_def truthy_def)
  have n: "(8256012910644430 / 2 ^ 43 :: real) \<noteq> 8256012910644429 / 2 ^ 43"
    by simp
  show ?thesis
    unfolding a t double_938_6 using n by (intro conjI refl)
qed

text \<open>
  C6, amended: for every amount \<open>a\<close> in the normal range of doubles (from \<open>2^-1000\<close> to
  \<open>2^1000\<close>) and every frequency among monthly, fortnightly and weekly, the target-cycle
  amount of the annual salary of \<open>a\<close>, at the same frequency, is a number \<open>r\<close> with
  \<open>|r - a| \<le> a / 2^51\<close>: the round trip gives the amount back up to the rounding of
  its two operations.
\<close>

theorem cycle_round_trip_up_to_rounding:
  assumes lo: "1 / 2 ^ 1000 \<le> a" and hi: "a \<le> 2 ^ 1000"
    and f: "f \<in> {''monthly'', ''fortnightly'', ''weekly''}"
  shows "\<exists>r. calculateTargetCycleAmountDouble
               (calculateAnnualSalaryDouble (Some a) (Some f)) (Some f) = Some r
             \<and> \<bar>r - a\<bar> \<le> a / 2 ^ 51"
proof -
  have "(0::real) < 1 / 2 ^ 1000" by simp
  then have a: "0 < a" using lo by (rule less_le_trans)
  have m: "1 \<le> cycleMultiplier f" by (simp add: cycleMultiplier_def)
  from round_trip_Double [OF a f] round_trip_error [OF a m] show ?thesis by simp
qed

theorem cycle_round_trip_up_to_rounding_witness:
  "(1 / 2 ^ 1000 :: real) \<le> 8256012910644429 / 2 ^ 43
   \<and> (8256012910644429 / 2 ^ 43 :: real) \<le> 2 ^ 1000
   \<and> calculateTargetCycleAmountDouble
        (calculateAnnualSalaryDouble (Some (8256012910644429 / 2 ^ 43)) (Some ''fortnightly''))
        (Some ''fortnightly'') = Some (8256012910644430 / 2 ^ 43)
   \<and> \<bar>8256012910644430 / 2 ^ 43 - 8256012910644429 / 2 ^ 43 :: real\<bar>
       \<le> (8256012910644429 / 2 ^ 43) / 2 ^ 51"
proof -
  have lo: "(1 / 2 ^ 1000 :: real) \<le> 8256012910644429 / 2 ^ 43"
    and hi: "(8256012910644429 / 2 ^ 43 :: real) \<le> 2 ^ 1000"
    by simp_all
  have a: "calculateAnnualSalaryDouble (Some (8256012910644429 / 2 ^ 43)) (Some ''fortnightly'')
       = Some (roundDouble (8256012910644429 / 2 ^ 43 * 26))"
    by (simp add: calculateAnnualSalaryDouble_def truthy_def)
  have t: "calculateTargetCycleAmountDouble (Some (6708010489898599 / 2 ^ 38)) (Some ''fortnightly'')
       = Some (roundDouble (6708010489898599 / 2 ^ 38 / 26))"
    by (simp add: calculateTargetCycleAmountDouble_def truthy_def)
  have e: "calculateTargetCycleAmountDouble
        (calculateAnnualSalaryDouble (Some (8256012910644429 / 2 ^ 43)) (Some ''fortnightly''))
        (Some ''fortnightly'') = Some (8256012910644430 / 2 ^ 43)"
    unfolding a double_938_6 t by (rule refl)
  from cycle_round_trip_up_to_rounding [OF lo hi, of "''fortnightly''"]
  obtain r where r: "calculateTargetCycleAmountDouble
        (calculateAnnualSalaryDouble (Some (8256012910644429 / 2 ^ 43)) (Some ''fortnightly''))
        (Some ''fortnightly'') = Some r"
      "\<bar>r - 8256012910644429 / 2 ^ 43\<bar> \<le> (8256012910644429 / 2 ^ 43) / 2 ^ 51"
    by auto
  from r(1) e have "r = 8256012910644430 / 2 ^ 43" by simp
  with r(2) lo hi e show ?thesis by blast
qed

text \<open>Without the rounding, in the exact arithmetic of the other sections, the round trip is exact.\<close>

lemma cycle_round_trip_without_rounding:
  assumes "0 < a" and "f \<in> {''monthly'', ''fortnightly'', ''weekly''}"
  shows "calculateTargetCycleAmount (calculateAnnualSalary (Some a) (Some f)) (Some f) = Some a"
  using assms by (auto simp: calculateAnnualSalary_def calculateTargetCycleAmount_def truthy_def)

text \<open>
  C7. \<^verbatim>\<open>calculateAnnualSalary\<close> returns null exactly when the amount is missing or not
  positive, or the frequency is missing or is none of monthly, fortnightly and weekly;
  \<^verbatim>\<open>calculateTargetCycleAmount\<close> returns null under the same conditions on its own
  arguments, and otherwise returns the annual salary divided by the multiplier of the
  target frequency (12, 26, 52). Both functions are total: there is no throwing branch.
\<close>

theorem cycle_conversion_null_or_quotient:
  "(calculateAnnualSalary amt freq = None \<longleftrightarrow>
      (amt = None \<or> (\<exists>a. amt = Some a \<and> a \<le> 0) \<or> freq = None
       \<or> (\<exists>f. freq = Some f \<and> f \<notin> {''monthly'', ''fortnightly'', ''weekly''})))
   \<and> (calculateTargetCycleAmount annual target = None \<longleftrightarrow>
      (annual = None \<or> (\<exists>a. annual = Some a \<and> a \<le> 0) \<or> target = None
       \<or> (\<exists>f. target = Some f \<and> f \<notin> {''monthly'', ''fortnightly'', ''weekly''})))
   \<and> (\<forall>a f. amt = Some a \<and> 0 < a \<and> freq = Some f
          \<and> f \<in> {''monthly'', ''fortnightly'', ''weekly''}
        \<longrightarrow> calculateAnnualSalary amt freq = Some (a * cycleMultiplier f))
   \<and> (\<forall>a f. annual = Some a \<and> 0 < a \<and> target = Some f
          \<and> f \<in> {''monthly'', ''fortnightly'', ''weekly''}
        \<longrightarrow> calculateTargetCycleAmount annual target = Some (a / cycleMultiplier f))"
  by (cases amt; cases freq; cases annual; cases target)
     (auto simp: calculateAnnualSalary_def calculateTargetCycleAmount_def truthy_def
        cycleMultiplier_def)

theorem cycle_conversion_null_or_quotient_witness:
  "calculateAnnualSalary (Some (- 100)) (Some ''fortnightly'') = None
   \<and> calculateAnnualSalary (Some 5000) (Some ''bi-monthly'') = None
   \<and> calculateAnnualSalary (Some 5000) (Some ''monthly'') = Some 60000
   \<and> calculateTargetCycleAmount (Some 60000) None = None
   \<and> calculateTargetCycleAmount (Some 60000) (Some ''monthly'') = Some 5000"
  using cycle_conversion_null_or_quotient
    [of "Some (- 100)" "Some ''fortnightly''" "Some 60000" "None"]
    cycle_conversion_null_or_quotient
    [of "Some 5000" "Some ''bi-monthly''" "Some 60000" "Some ''monthly''"]
    cycle_conversion_null_or_quotient
    [of "Some 5000" "Some ''monthly''" "Some 60000" "Some ''monthly''"]
  by (simp add: cycleMultiplier_def)

end
